theory Spec2Isabelle
  imports Main "HOL-Library.AList"
begin

section \<open>Python values, dictionaries and exceptions\<close>

text \<open>
  The service \<^verbatim>\<open>src/services/auth.py\<close> works on claim dictionaries whose keys are
  strings and whose values are Python objects: \<^verbatim>\<open>None\<close>, booleans, integers, strings,
  \<^verbatim>\<open>datetime\<close> objects, lists and dictionaries of such. A \<^verbatim>\<open>datetime\<close> is kept as
  the number of microseconds since 1970-01-01T00:00:00 (its resolution), a
  \<^verbatim>\<open>timedelta\<close> as a number of microseconds.
\<close>

type_synonym datetime = int
type_synonym timedelta = int

datatype pyval =
    PNone | PBool bool | PInt int | PStr string | PDatetime datetime
  | PList "pyval list" | PDict "(string \<times> pyval) list"

text \<open>
  A \<^verbatim>\<open>dict\<close> keeps its keys in insertion order; it is an association list, read
  through \<^const>\<open>map_of\<close>.
\<close>

type_synonym pydict = "(string \<times> pyval) list"

datatype exn =
    HTTPException (status_code: nat) (detail: string) (headers: "(string \<times> string) list option")
  | KeyError string
  | OverflowError

text \<open>\<^verbatim>\<open>d.get(k)\<close>: the value, or \<^verbatim>\<open>None\<close> when the key is missing.\<close>

definition dict_get :: "pydict \<Rightarrow> string \<Rightarrow> pyval" where
  "dict_get d k = (case map_of d k of None \<Rightarrow> PNone | Some v \<Rightarrow> v)"

text \<open>\<^verbatim>\<open>d[k]\<close>: the value, or \<^verbatim>\<open>KeyError\<close> when the key is missing.\<close>

definition dict_getitem :: "pydict \<Rightarrow> string \<Rightarrow> exn + pyval" where
  "dict_getitem d k = (case map_of d k of None \<Rightarrow> Inl (KeyError k) | Some v \<Rightarrow> Inr v)"

text \<open>
  \<^verbatim>\<open>d.update({k1: v1, ...})\<close>: each pair in turn replaces the value of a key that is
  present, in place, and is appended otherwise.
\<close>

definition dict_update :: "pydict \<Rightarrow> (string \<times> pyval) list \<Rightarrow> pydict" where
  "dict_update d kvs = foldl (\<lambda>acc kv. AList.update (fst kv) (snd kv) acc) d kvs"

subsection \<open>Dictionaries as objects\<close>

text \<open>
  The issuing functions receive a reference to the caller's dictionary, copy it and
  update the copy. Objects live in a heap, a list of dictionaries indexed by reference;
  \<^verbatim>\<open>data.copy()\<close> allocates a new object with the same content.
\<close>

type_synonym ref = nat
type_synonym heap = "pydict list"

definition dict_copy :: "heap \<Rightarrow> ref \<Rightarrow> heap \<times> ref" where
  "dict_copy h r = (h @ [h ! r], length h)"

definition dict_update_ref :: "heap \<Rightarrow> ref \<Rightarrow> (string \<times> pyval) list \<Rightarrow> heap" where
  "dict_update_ref h r kvs = h[r := dict_update (h ! r) kvs]"

subsection \<open>Dates and durations\<close>

text \<open>
  \<^verbatim>\<open>datetime\<close> covers the years 1 to 9999 and \<^verbatim>\<open>timedelta\<close> at most 999999999 days
  either way; a result outside raises \<^verbatim>\<open>OverflowError\<close>.
\<close>

definition us_per_second :: int where
  "us_per_second = 1000000"

definition us_per_day :: int where
  "us_per_day = 86400 * us_per_second"

definition datetime_min :: datetime where
  "datetime_min = - 62135596800 * us_per_second"

definition datetime_max :: datetime where
  "datetime_max = 253402300799 * us_per_second + 999999"

definition timedelta_of_us :: "int \<Rightarrow> exn + timedelta" where
  "timedelta_of_us us =
     (if - 999999999 \<le> us div us_per_day \<and> us div us_per_day \<le> 999999999
      then Inr us else Inl OverflowError)"

definition timedelta_seconds :: "int \<Rightarrow> exn + timedelta" where
  "timedelta_seconds s = timedelta_of_us (s * us_per_second)"

definition timedelta_minutes :: "int \<Rightarrow> exn + timedelta" where
  "timedelta_minutes m = timedelta_of_us (m * 60 * us_per_second)"

definition timedelta_days :: "int \<Rightarrow> exn + timedelta" where
  "timedelta_days d = timedelta_of_us (d * us_per_day)"

text \<open>\<^verbatim>\<open>t + delta\<close>, where building \<^verbatim>\<open>delta\<close> may already have raised.\<close>

definition datetime_add :: "datetime \<Rightarrow> exn + timedelta \<Rightarrow> exn + datetime" where
  "datetime_add t delta =
     (case delta of
        Inl e \<Rightarrow> Inl e
      | Inr d \<Rightarrow>
          if datetime_min \<le> t + d \<and> t + d \<le> datetime_max then Inr (t + d)
          else Inl OverflowError)"

text \<open>
  \<^verbatim>\<open>expires_delta: Optional[float]\<close> is a number of seconds. The model takes whole
  numbers of seconds, for which \<^verbatim>\<open>timedelta(seconds=...)\<close> is exact. Python's truth
  value of the argument: \<^verbatim>\<open>None\<close> and zero are false.
\<close>

definition truthy :: "int option \<Rightarrow> bool" where
  "truthy x = (case x of None \<Rightarrow> False | Some d \<Rightarrow> d \<noteq> 0)"

section \<open>The authentication service\<close>

text \<open>
  \<^verbatim>\<open>settings.secret_key\<close> and \<^verbatim>\<open>settings.algorithm\<close>, read once into the class
  attributes \<^verbatim>\<open>SECRET_KEY\<close> and \<^verbatim>\<open>ALGORITHM\<close>.
\<close>

record settings =
  secret_key :: string
  algorithm :: string

text \<open>
  \<^verbatim>\<open>jwt.encode\<close> and \<^verbatim>\<open>jwt.decode\<close> belong to the library python-jose and
  \<^verbatim>\<open>get_user_by_email\<close> to the user repository; the service functions take them as
  arguments. Every failure that \<^verbatim>\<open>jwt.decode\<close> reports is a \<^verbatim>\<open>JWTError\<close>, the class
  the \<^verbatim>\<open>except\<close> clauses of the service name; its kinds carry the names of
  section 4.2 of the specification. The coroutines (\<^verbatim>\<open>async def\<close>) are taken as
  ordinary calls, and the \<^verbatim>\<open>print(e)\<close> of \<^verbatim>\<open>get_email_from_token\<close>, which only writes
  to the standard output, is left out.
\<close>

datatype jwt_error = InvalidSignatureError | MalformedTokenError | ExpiredTokenError

type_synonym 'tok jwt_encoder = "pydict \<Rightarrow> string \<Rightarrow> string \<Rightarrow> 'tok"
type_synonym 'tok jwt_decoder = "'tok \<Rightarrow> string \<Rightarrow> string list \<Rightarrow> jwt_error + pydict"

subsection \<open>Issuing tokens\<close>

text \<open>
  Each issuing function reads the clock twice: \<open>utcnow1\<close> is the reading that the
  expiry is computed from, \<open>utcnow2\<close> the later one stored as \<^verbatim>\<open>iat\<close>. The functions
  return the heap they leave behind and either the token or the exception raised.
\<close>

definition create_access_token ::
  "'tok jwt_encoder \<Rightarrow> settings \<Rightarrow> heap \<Rightarrow> ref \<Rightarrow> int option \<Rightarrow> datetime \<Rightarrow> datetime
     \<Rightarrow> heap \<times> (exn + 'tok)" where
  "create_access_token jwt_encode cfg h data expires_delta utcnow1 utcnow2 =
     (case dict_copy h data of
        (h1, to_encode) \<Rightarrow>
          (case (if truthy expires_delta
                 then datetime_add utcnow1 (timedelta_seconds (the expires_delta))
                 else datetime_add utcnow1 (timedelta_minutes 15)) of
             Inl e \<Rightarrow> (h1, Inl e)
           | Inr expire \<Rightarrow>
               (let h2 = dict_update_ref h1 to_encode
                           [(''iat'', PDatetime utcnow2), (''exp'', PDatetime expire),
                            (''scope'', PStr ''access_token'')]
                in (h2, Inr (jwt_encode (h2 ! to_encode) (secret_key cfg) (algorithm cfg))))))"

definition create_refresh_token ::
  "'tok jwt_encoder \<Rightarrow> settings \<Rightarrow> heap \<Rightarrow> ref \<Rightarrow> int option \<Rightarrow> datetime \<Rightarrow> datetime
     \<Rightarrow> heap \<times> (exn + 'tok)" where
  "create_refresh_token jwt_encode cfg h data expires_delta utcnow1 utcnow2 =
     (case dict_copy h data of
        (h1, to_encode) \<Rightarrow>
          (case (if truthy expires_delta
                 then datetime_add utcnow1 (timedelta_seconds (the expires_delta))
                 else datetime_add utcnow1 (timedelta_days 7)) of
             Inl e \<Rightarrow> (h1, Inl e)
           | Inr expire \<Rightarrow>
               (let h2 = dict_update_ref h1 to_encode
                           [(''iat'', PDatetime utcnow2), (''exp'', PDatetime expire),
                            (''scope'', PStr ''refresh_token'')]
                in (h2, Inr (jwt_encode (h2 ! to_encode) (secret_key cfg) (algorithm cfg))))))"

definition create_email_token ::
  "'tok jwt_encoder \<Rightarrow> settings \<Rightarrow> heap \<Rightarrow> ref \<Rightarrow> datetime \<Rightarrow> datetime
     \<Rightarrow> heap \<times> (exn + 'tok)" where
  "create_email_token jwt_encode cfg h data utcnow1 utcnow2 =
     (case dict_copy h data of
        (h1, to_encode) \<Rightarrow>
          (case datetime_add utcnow1 (timedelta_days 7) of
             Inl e \<Rightarrow> (h1, Inl e)
           | Inr expire \<Rightarrow>
               (let h2 = dict_update_ref h1 to_encode
                           [(''iat'', PDatetime utcnow2), (''exp'', PDatetime expire),
                            (''scope'', PStr ''email_token'')]
                in (h2, Inr (jwt_encode (h2 ! to_encode) (secret_key cfg) (algorithm cfg))))))"

subsection \<open>Resolving tokens\<close>

definition credentials_exception :: exn where
  "credentials_exception =
     HTTPException 401 ''Could not validate credentials'' (Some [(''WWW-Authenticate'', ''Bearer'')])"

definition get_current_user ::
  "'tok jwt_decoder \<Rightarrow> (pyval \<Rightarrow> 'user option) \<Rightarrow> settings \<Rightarrow> 'tok \<Rightarrow> exn + 'user" where
  "get_current_user jwt_decode get_user_by_email cfg token =
     (case jwt_decode token (secret_key cfg) [algorithm cfg] of
        Inl e \<Rightarrow> Inl credentials_exception
      | Inr payload \<Rightarrow>
          if dict_get payload ''scope'' = PStr ''access_token''
          then (let email = dict_get payload ''sub'' in
                if email = PNone then Inl credentials_exception
                else (case get_user_by_email email of
                        None \<Rightarrow> Inl credentials_exception
                      | Some user \<Rightarrow> Inr user))
          else Inl credentials_exception)"

definition decode_refresh_token :: "'tok jwt_decoder \<Rightarrow> settings \<Rightarrow> 'tok \<Rightarrow> exn + pyval" where
  "decode_refresh_token jwt_decode cfg refresh_token =
     (case jwt_decode refresh_token (secret_key cfg) [algorithm cfg] of
        Inl e \<Rightarrow> Inl (HTTPException 401 ''Could not validate credentials'' None)
      | Inr payload \<Rightarrow>
          (case dict_getitem payload ''scope'' of
             Inl e \<Rightarrow> Inl e
           | Inr scope \<Rightarrow>
               if scope = PStr ''refresh_token''
               then (case dict_getitem payload ''sub'' of
                       Inl e \<Rightarrow> Inl e
                     | Inr email \<Rightarrow> Inr email)
               else Inl (HTTPException 401 ''Invalid scope for token'' None)))"

definition get_email_from_token :: "'tok jwt_decoder \<Rightarrow> settings \<Rightarrow> 'tok \<Rightarrow> exn + pyval" where
  "get_email_from_token jwt_decode cfg token =
     (case jwt_decode token (secret_key cfg) [algorithm cfg] of
        Inl e \<Rightarrow> Inl (HTTPException 422 ''Invalid token for email verification'' None)
      | Inr payload \<Rightarrow>
          (case dict_getitem payload ''scope'' of
             Inl e \<Rightarrow> Inl e
           | Inr scope \<Rightarrow>
               if scope = PStr ''email_token''
               then (case dict_getitem payload ''sub'' of
                       Inl e \<Rightarrow> Inl e
                     | Inr email \<Rightarrow> Inr email)
               else Inl (HTTPException 401 ''Invalid scope for token'' None)))"

section \<open>The token codec\<close>

text \<open>
  Modelled from the spec: the token codec of section 4.2, which the service takes from
  the library python-jose (\<^verbatim>\<open>jwt.encode\<close>, \<^verbatim>\<open>jwt.decode\<close>); the library is not part
  of the sources. A token is the three-segment string of section 6: header (the
  algorithm), claims and signature. The signature is symbolic: it records the key, the
  algorithm and the claims it was made over. A string that has no such three segments
  is \<open>Unparsable\<close>.
\<close>

datatype signature = Signature string string pydict

datatype token = Compact string pydict signature | Unparsable string

text \<open>
  Modelled from the spec: \<^verbatim>\<open>encode(claims, signingKey, algorithm) -> Token\<close> of
  section 4.2, absent from the sources.
\<close>

definition encode :: "pydict \<Rightarrow> string \<Rightarrow> string \<Rightarrow> token" where
  "encode claims signingKey alg = Compact alg claims (Signature signingKey alg claims)"

text \<open>
  Modelled from the spec: \<^verbatim>\<open>decode(token, signingKey, algorithm) -> Claims\<close> of
  section 4.2, absent from the sources, at the wall-clock time \<open>now\<close>: it fails with
  \<open>MalformedTokenError\<close> if the structure cannot be parsed, with
  \<open>InvalidSignatureError\<close> if the signature does not match, with \<open>ExpiredTokenError\<close> if
  \<^verbatim>\<open>exp\<close> is in the past.
\<close>

definition decode :: "datetime \<Rightarrow> token \<Rightarrow> string \<Rightarrow> string \<Rightarrow> jwt_error + pydict" where
  "decode now tok signingKey alg =
     (case tok of
        Unparsable s \<Rightarrow> Inl MalformedTokenError
      | Compact hdr claims sg \<Rightarrow>
          if hdr \<noteq> alg \<or> sg \<noteq> Signature signingKey alg claims then Inl InvalidSignatureError
          else (case map_of claims ''exp'' of
                  Some (PDatetime exp) \<Rightarrow> if exp < now then Inl ExpiredTokenError else Inr claims
                | _ \<Rightarrow> Inr claims))"

text \<open>
  Modelled from the spec: the call \<^verbatim>\<open>jwt.decode(token, key, algorithms=[...])\<close> of the
  service at time \<open>now\<close>, through \<^const>\<open>decode\<close>: the token's algorithm has to be one of
  the listed ones.
\<close>

definition jwt_decode_at :: "datetime \<Rightarrow> token jwt_decoder" where
  "jwt_decode_at now tok signingKey algorithms =
     (case tok of
        Unparsable s \<Rightarrow> Inl MalformedTokenError
      | Compact hdr claims sg \<Rightarrow>
          if hdr \<in> set algorithms then decode now tok signingKey hdr
          else Inl InvalidSignatureError)"

section \<open>Auxiliary definitions\<close>

text \<open>
  The dictionary that the issuing functions hand to \<^verbatim>\<open>jwt.encode\<close>: the copy of the
  caller's dictionary after \<^verbatim>\<open>update\<close> has stamped it.
\<close>

definition stamp :: "pydict \<Rightarrow> datetime \<Rightarrow> datetime \<Rightarrow> string \<Rightarrow> pydict" where
  "stamp d iat exp scope =
     dict_update d [(''iat'', PDatetime iat), (''exp'', PDatetime exp), (''scope'', PStr scope)]"

text \<open>
  The value of the local variable \<^verbatim>\<open>expire\<close> of each issuing function, or the exception
  that computing it raises.
\<close>

definition access_expire :: "int option \<Rightarrow> datetime \<Rightarrow> exn + datetime" where
  "access_expire expires_delta utcnow1 =
     (if truthy expires_delta
      then datetime_add utcnow1 (timedelta_seconds (the expires_delta))
      else datetime_add utcnow1 (timedelta_minutes 15))"

definition refresh_expire :: "int option \<Rightarrow> datetime \<Rightarrow> exn + datetime" where
  "refresh_expire expires_delta utcnow1 =
     (if truthy expires_delta
      then datetime_add utcnow1 (timedelta_seconds (the expires_delta))
      else datetime_add utcnow1 (timedelta_days 7))"

definition email_expire :: "datetime \<Rightarrow> exn + datetime" where
  "email_expire utcnow1 = datetime_add utcnow1 (timedelta_days 7)"

text \<open>
  A configuration and callers' dictionaries for the worked examples. The second
  dictionary comes with entries of its own under \<^verbatim>\<open>exp\<close>, \<^verbatim>\<open>scope\<close> and \<^verbatim>\<open>iat\<close>.
\<close>

definition cfg0 :: settings where
  "cfg0 = \<lparr>secret_key = ''s3cret'', algorithm = ''HS256''\<rparr>"

definition alice :: pydict where
  "alice = [(''sub'', PStr ''a@b.com''), (''scope'', PStr ''admin'')]"

definition bob :: pydict where
  "bob = [(''sub'', PStr ''b@c.org''), (''exp'', PDatetime 5), (''scope'', PStr ''admin''),
          (''iat'', PStr ''never''), (''role'', PStr ''owner'')]"

text \<open>
  A caller's dictionary that asks for a lifetime of 60 seconds in the only way the
  argument of \<^verbatim>\<open>create_email_token\<close> allows: by entries of its own.
\<close>

definition carol :: pydict where
  "carol = [(''sub'', PStr ''c@d.net''), (''expires_delta'', PInt 60),
            (''exp'', PDatetime 61000000)]"

text \<open>
  \<open>stamped d c iat expire scope\<close>: the dictionary \<open>c\<close> is \<open>d\<close> with \<^verbatim>\<open>iat\<close>, \<^verbatim>\<open>exp\<close>
  and \<^verbatim>\<open>scope\<close> set to the given values: it has the keys of \<open>d\<close> and these three, and
  every other key has its value of \<open>d\<close>.
\<close>

definition stamped :: "pydict \<Rightarrow> pydict \<Rightarrow> datetime \<Rightarrow> datetime \<Rightarrow> string \<Rightarrow> bool" where
  "stamped d c iat expire scope \<longleftrightarrow>
     dict_get c ''iat'' = PDatetime iat \<and>
     dict_get c ''exp'' = PDatetime expire \<and>
     dict_get c ''scope'' = PStr scope \<and>
     set (map fst c) = set (map fst d) \<union> {''iat'', ''exp'', ''scope''} \<and>
     (\<forall>k. k \<noteq> ''iat'' \<and> k \<noteq> ''exp'' \<and> k \<noteq> ''scope'' \<longrightarrow> map_of c k = map_of d k)"

text \<open>
  \<open>issued enc cfg r expire\<close>: the call with result \<open>r\<close> returned a token, the encoding
  under the configured key and algorithm of the dictionary it allocated last, and that
  dictionary's \<^verbatim>\<open>exp\<close> is \<open>expire\<close>.
\<close>

definition issued :: "'tok jwt_encoder \<Rightarrow> settings \<Rightarrow> heap \<times> (exn + 'tok) \<Rightarrow> pyval \<Rightarrow> bool" where
  "issued enc cfg r expire \<longleftrightarrow>
     snd r = Inr (enc (last (fst r)) (secret_key cfg) (algorithm cfg)) \<and>
     dict_get (last (fst r)) ''exp'' = expire"

text \<open>A user repository for the worked examples: it knows one email address.\<close>

definition lookup0 :: "pyval \<Rightarrow> string option" where
  "lookup0 email = (if email = PStr ''a@b.com'' then Some ''user a'' else None)"

text \<open>
  The claims and tokens that the issuing functions produce for \<^const>\<open>alice\<close> with the
  codec of section 4.2, at the clock readings 1000000 and 1000007.
\<close>

definition access_claims :: pydict where
  "access_claims = stamp alice 1000007 901000000 ''access_token''"

definition refresh_claims :: pydict where
  "refresh_claims = stamp alice 1000007 604801000000 ''refresh_token''"

definition email_claims :: pydict where
  "email_claims = stamp alice 1000007 604801000000 ''email_token''"

definition access_tok :: token where
  "access_tok = encode access_claims ''s3cret'' ''HS256''"

definition refresh_tok :: token where
  "refresh_tok = encode refresh_claims ''s3cret'' ''HS256''"

definition email_tok :: token where
  "email_tok = encode email_claims ''s3cret'' ''HS256''"

text \<open>
  The email token of the example with one character of its claims segment changed
  (the subject reads \<^verbatim>\<open>a@b.con\<close>), under the signature of the original.
\<close>

definition corrupted_email_tok :: token where
  "corrupted_email_tok =
     Compact ''HS256''
       (stamp [(''sub'', PStr ''a@b.con''), (''scope'', PStr ''admin'')] 1000007 604801000000 ''email_token'')
       (Signature ''s3cret'' ''HS256'' email_claims)"

text \<open>
  Tokens signed with the configured key whose claims lack \<^verbatim>\<open>sub\<close> (the issuing
  functions called with an empty dictionary) or lack \<^verbatim>\<open>scope\<close>.
\<close>

definition nosub_refresh_tok :: token where
  "nosub_refresh_tok = encode (stamp [] 1000007 604801000000 ''refresh_token'') ''s3cret'' ''HS256''"

definition nosub_email_tok :: token where
  "nosub_email_tok = encode (stamp [] 1000007 604801000000 ''email_token'') ''s3cret'' ''HS256''"

definition noscope_tok :: token where
  "noscope_tok = encode [(''sub'', PStr ''a@b.com'')] ''s3cret'' ''HS256''"

section \<open>Basic facts\<close>

lemmas time_defs = datetime_min_def datetime_max_def us_per_second_def us_per_day_def

lemma map_of_stamp:
  "map_of (stamp d iat exp scope) =
     (map_of d)(''iat'' \<mapsto> PDatetime iat, ''exp'' \<mapsto> PDatetime exp, ''scope'' \<mapsto> PStr scope)"
  by (simp add: stamp_def dict_update_def update_conv')

lemma dict_get_stamp:
  "dict_get (stamp d iat exp scope) ''iat'' = PDatetime iat"
  "dict_get (stamp d iat exp scope) ''exp'' = PDatetime exp"
  "dict_get (stamp d iat exp scope) ''scope'' = PStr scope"
  by (simp_all add: dict_get_def map_of_stamp)

lemma dict_get_stamp_other:
  "k \<noteq> ''iat'' \<Longrightarrow> k \<noteq> ''exp'' \<Longrightarrow> k \<noteq> ''scope'' \<Longrightarrow>
     dict_get (stamp d iat exp scope) k = dict_get d k"
  by (simp add: dict_get_def map_of_stamp)

lemma create_access_token_unfold:
  "create_access_token enc cfg h data ed t1 t2 =
     (case datetime_add t1 (if truthy ed then timedelta_seconds (the ed) else timedelta_minutes 15) of
        Inl e \<Rightarrow> (h @ [h ! data], Inl e)
      | Inr expire \<Rightarrow>
          (h @ [stamp (h ! data) t2 expire ''access_token''],
           Inr (enc (stamp (h ! data) t2 expire ''access_token'') (secret_key cfg) (algorithm cfg))))"
  by (simp add: create_access_token_def dict_copy_def dict_update_ref_def stamp_def Let_def
           split: sum.splits)

lemma create_refresh_token_unfold:
  "create_refresh_token enc cfg h data ed t1 t2 =
     (case datetime_add t1 (if truthy ed then timedelta_seconds (the ed) else timedelta_days 7) of
        Inl e \<Rightarrow> (h @ [h ! data], Inl e)
      | Inr expire \<Rightarrow>
          (h @ [stamp (h ! data) t2 expire ''refresh_token''],
           Inr (enc (stamp (h ! data) t2 expire ''refresh_token'') (secret_key cfg) (algorithm cfg))))"
  by (simp add: create_refresh_token_def dict_copy_def dict_update_ref_def stamp_def Let_def
           split: sum.splits)

lemma create_email_token_unfold:
  "create_email_token enc cfg h data t1 t2 =
     (case datetime_add t1 (timedelta_days 7) of
        Inl e \<Rightarrow> (h @ [h ! data], Inl e)
      | Inr expire \<Rightarrow>
          (h @ [stamp (h ! data) t2 expire ''email_token''],
           Inr (enc (stamp (h ! data) t2 expire ''email_token'') (secret_key cfg) (algorithm cfg))))"
  by (simp add: create_email_token_def dict_copy_def dict_update_ref_def stamp_def Let_def
           split: sum.splits)

lemma timedelta_minutes_15: "timedelta_minutes 15 = Inr (15 * 60 * us_per_second)"
  by (simp add: timedelta_minutes_def timedelta_of_us_def us_per_day_def us_per_second_def)

lemma timedelta_days_7: "timedelta_days 7 = Inr (7 * us_per_day)"
  by (simp add: timedelta_days_def timedelta_of_us_def us_per_day_def us_per_second_def)

lemma timedelta_seconds_eq:
  "timedelta_seconds s =
     (if - 999999999 \<le> s div 86400 \<and> s div 86400 \<le> 999999999
      then Inr (s * us_per_second) else Inl OverflowError)"
proof -
  have "(s * 1000000) div (86400 * 1000000) = s div 86400"
    by simp
  then show ?thesis
    by (simp add: timedelta_seconds_def timedelta_of_us_def us_per_day_def us_per_second_def)
qed

lemma datetime_add_Inr:
  "datetime_add t (Inr d) =
     (if datetime_min \<le> t + d \<and> t + d \<le> datetime_max then Inr (t + d) else Inl OverflowError)"
  by (simp add: datetime_add_def)

lemma expiry_raises:
  "datetime_add t (timedelta_of_us us) = Inl e \<Longrightarrow> e = OverflowError"
  by (auto simp: datetime_add_def timedelta_of_us_def split: if_splits)

lemma create_access_token_raises:
  "create_access_token enc cfg h data ed t1 t2 = (h', Inl e) \<Longrightarrow> e = OverflowError"
  by (auto simp: create_access_token_unfold timedelta_seconds_def timedelta_minutes_def
        split: sum.splits if_splits dest: expiry_raises)

lemma create_refresh_token_raises:
  "create_refresh_token enc cfg h data ed t1 t2 = (h', Inl e) \<Longrightarrow> e = OverflowError"
  by (auto simp: create_refresh_token_unfold timedelta_seconds_def timedelta_days_def
        split: sum.splits if_splits dest: expiry_raises)

lemma create_email_token_raises:
  "create_email_token enc cfg h data t1 t2 = (h', Inl e) \<Longrightarrow> e = OverflowError"
  by (auto simp: create_email_token_unfold timedelta_days_def
        split: sum.splits if_splits dest: expiry_raises)

lemma fst_create_access_token:
  "\<exists>c. fst (create_access_token enc cfg h data ed t1 t2) = h @ [c]"
  by (simp add: create_access_token_unfold split: sum.splits)

lemma fst_create_refresh_token:
  "\<exists>c. fst (create_refresh_token enc cfg h data ed t1 t2) = h @ [c]"
  by (simp add: create_refresh_token_unfold split: sum.splits)

lemma fst_create_email_token:
  "\<exists>c. fst (create_email_token enc cfg h data t1 t2) = h @ [c]"
  by (simp add: create_email_token_unfold split: sum.splits)

lemma keys_stamp:
  "set (map fst (stamp d iat expire scope)) = set (map fst d) \<union> {''iat'', ''exp'', ''scope''}"
  unfolding stamp_def dict_update_def by (simp add: dom_update)

lemma stamped_stamp: "stamped d (stamp d iat expire scope) iat expire scope"
  using keys_stamp [of d iat expire scope]
  by (simp add: stamped_def dict_get_stamp map_of_stamp)

lemma frame_append: "data < length h \<Longrightarrow> h' = h @ [c] \<Longrightarrow> h' ! data = h ! data \<and> take (length h) h' = h"
  by (simp add: nth_append)

lemma access_issue:
  "datetime_add t1 (if truthy ed then timedelta_seconds (the ed) else timedelta_minutes 15) = Inr expire \<Longrightarrow>
     create_access_token enc cfg h data ed t1 t2 =
       (h @ [stamp (h ! data) t2 expire ''access_token''],
        Inr (enc (stamp (h ! data) t2 expire ''access_token'') (secret_key cfg) (algorithm cfg)))"
  by (simp add: create_access_token_unfold)

lemma refresh_issue:
  "datetime_add t1 (if truthy ed then timedelta_seconds (the ed) else timedelta_days 7) = Inr expire \<Longrightarrow>
     create_refresh_token enc cfg h data ed t1 t2 =
       (h @ [stamp (h ! data) t2 expire ''refresh_token''],
        Inr (enc (stamp (h ! data) t2 expire ''refresh_token'') (secret_key cfg) (algorithm cfg)))"
  by (simp add: create_refresh_token_unfold)

lemma email_issue:
  "datetime_add t1 (timedelta_days 7) = Inr expire \<Longrightarrow>
     create_email_token enc cfg h data t1 t2 =
       (h @ [stamp (h ! data) t2 expire ''email_token''],
        Inr (enc (stamp (h ! data) t2 expire ''email_token'') (secret_key cfg) (algorithm cfg)))"
  by (simp add: create_email_token_unfold)

lemma access_returns:
  "access_expire ed t1 = Inr expire \<Longrightarrow>
     create_access_token enc cfg h data ed t1 t2 =
       (h @ [stamp (h ! data) t2 expire ''access_token''],
        Inr (enc (stamp (h ! data) t2 expire ''access_token'') (secret_key cfg) (algorithm cfg)))"
  by (cases "truthy ed") (simp_all add: access_expire_def create_access_token_unfold)

lemma refresh_returns:
  "refresh_expire ed t1 = Inr expire \<Longrightarrow>
     create_refresh_token enc cfg h data ed t1 t2 =
       (h @ [stamp (h ! data) t2 expire ''refresh_token''],
        Inr (enc (stamp (h ! data) t2 expire ''refresh_token'') (secret_key cfg) (algorithm cfg)))"
  by (cases "truthy ed") (simp_all add: refresh_expire_def create_refresh_token_unfold)

lemma email_returns:
  "email_expire t1 = Inr expire \<Longrightarrow>
     create_email_token enc cfg h data t1 t2 =
       (h @ [stamp (h ! data) t2 expire ''email_token''],
        Inr (enc (stamp (h ! data) t2 expire ''email_token'') (secret_key cfg) (algorithm cfg)))"
  by (simp add: email_expire_def email_issue)

lemma issued_stamp:
  "issued enc cfg (h @ [stamp d iat expire scope],
      Inr (enc (stamp d iat expire scope) (secret_key cfg) (algorithm cfg))) (PDatetime expire)"
  by (simp add: issued_def dict_get_stamp)

lemma get_current_user_decode_failure:
  "jwt_decode token (secret_key cfg) [algorithm cfg] = Inl err \<Longrightarrow>
     get_current_user jwt_decode get_user_by_email cfg token = Inl credentials_exception"
  by (simp add: get_current_user_def)

lemma get_current_user_wrong_scope:
  "jwt_decode token (secret_key cfg) [algorithm cfg] = Inr payload \<Longrightarrow>
   dict_get payload ''scope'' \<noteq> PStr ''access_token'' \<Longrightarrow>
     get_current_user jwt_decode get_user_by_email cfg token = Inl credentials_exception"
  by (simp add: get_current_user_def)

lemma get_current_user_no_sub:
  "jwt_decode token (secret_key cfg) [algorithm cfg] = Inr payload \<Longrightarrow>
   dict_get payload ''sub'' = PNone \<Longrightarrow>
     get_current_user jwt_decode get_user_by_email cfg token = Inl credentials_exception"
  by (simp add: get_current_user_def Let_def)

lemma get_current_user_no_user:
  "jwt_decode token (secret_key cfg) [algorithm cfg] = Inr payload \<Longrightarrow>
   get_user_by_email (dict_get payload ''sub'') = None \<Longrightarrow>
     get_current_user jwt_decode get_user_by_email cfg token = Inl credentials_exception"
  by (simp add: get_current_user_def Let_def)

lemma get_current_user_only_failure:
  "get_current_user jwt_decode get_user_by_email cfg token = Inl e \<Longrightarrow> e = credentials_exception"
  by (auto simp: get_current_user_def Let_def split: sum.splits if_splits option.splits)

lemma issue_alice:
  "create_access_token encode cfg0 [alice] 0 None 1000000 1000007 = ([alice, access_claims], Inr access_tok)"
  "create_refresh_token encode cfg0 [alice] 0 None 1000000 1000007 = ([alice, refresh_claims], Inr refresh_tok)"
  "create_email_token encode cfg0 [alice] 0 1000000 1000007 = ([alice, email_claims], Inr email_tok)"
  by (simp_all add: create_access_token_unfold create_refresh_token_unfold create_email_token_unfold
        truthy_def timedelta_minutes_15 timedelta_days_7 datetime_add_Inr time_defs cfg0_def
        access_claims_def refresh_claims_def email_claims_def access_tok_def refresh_tok_def email_tok_def)

lemma decode_encode:
  "decode now (encode claims key alg) key alg =
     (case map_of claims ''exp'' of
        Some (PDatetime exp) \<Rightarrow> if exp < now then Inl ExpiredTokenError else Inr claims
      | _ \<Rightarrow> Inr claims)"
  by (simp add: decode_def encode_def)

lemma jwt_decode_at_encode:
  "jwt_decode_at now (encode claims key alg) key [alg] = decode now (encode claims key alg) key alg"
  by (simp add: jwt_decode_at_def encode_def)

lemma decode_stamp:
  "jwt_decode_at now (encode (stamp d iat expire scope) key alg) key [alg] =
     (if expire < now then Inl ExpiredTokenError else Inr (stamp d iat expire scope))"
  by (simp add: jwt_decode_at_encode decode_encode map_of_stamp)

lemma example_decodes:
  "jwt_decode_at 2000000 access_tok ''s3cret'' [''HS256''] = Inr access_claims"
  "jwt_decode_at 2000000 refresh_tok ''s3cret'' [''HS256''] = Inr refresh_claims"
  "jwt_decode_at 2000000 email_tok ''s3cret'' [''HS256''] = Inr email_claims"
  "jwt_decode_at 901000001 access_tok ''s3cret'' [''HS256''] = Inl ExpiredTokenError"
  "jwt_decode_at 2000000 access_tok ''guess'' [''HS256''] = Inl InvalidSignatureError"
  "jwt_decode_at 2000000 (Unparsable ''abc.def'') ''s3cret'' [''HS256''] = Inl MalformedTokenError"
  by (simp_all add: access_tok_def refresh_tok_def email_tok_def access_claims_def
        refresh_claims_def email_claims_def decode_stamp)
     (simp_all add: jwt_decode_at_def decode_def encode_def)

lemma example_claims:
  "dict_get access_claims ''scope'' = PStr ''access_token''"
  "dict_get refresh_claims ''scope'' = PStr ''refresh_token''"
  "dict_get email_claims ''scope'' = PStr ''email_token''"
  "dict_get access_claims ''sub'' = PStr ''a@b.com''"
  by (simp_all add: access_claims_def refresh_claims_def email_claims_def dict_get_stamp
        dict_get_stamp_other) (simp add: dict_get_def alice_def)

lemma get_email_from_token_wrong_scope:
  "jwt_decode token (secret_key cfg) [algorithm cfg] = Inr payload \<Longrightarrow>
   map_of payload ''scope'' = Some scope \<Longrightarrow> scope \<noteq> PStr ''email_token'' \<Longrightarrow>
     get_email_from_token jwt_decode cfg token = Inl (HTTPException 401 ''Invalid scope for token'' None)"
  by (simp add: get_email_from_token_def dict_getitem_def)

lemma get_email_from_token_decode_failure:
  "jwt_decode token (secret_key cfg) [algorithm cfg] = Inl err \<Longrightarrow>
     get_email_from_token jwt_decode cfg token =
       Inl (HTTPException 422 ''Invalid token for email verification'' None)"
  by (simp add: get_email_from_token_def)

lemma decode_refresh_token_payload:
  "jwt_decode tok (secret_key cfg) [algorithm cfg] = Inr payload \<Longrightarrow>
     decode_refresh_token jwt_decode cfg tok =
       (case map_of payload ''scope'' of
          None \<Rightarrow> Inl (KeyError ''scope'')
        | Some scope \<Rightarrow>
            if scope = PStr ''refresh_token''
            then (case map_of payload ''sub'' of None \<Rightarrow> Inl (KeyError ''sub'') | Some email \<Rightarrow> Inr email)
            else Inl (HTTPException 401 ''Invalid scope for token'' None))"
  by (simp add: decode_refresh_token_def dict_getitem_def split: option.splits)

lemma get_email_from_token_payload:
  "jwt_decode tok (secret_key cfg) [algorithm cfg] = Inr payload \<Longrightarrow>
     get_email_from_token jwt_decode cfg tok =
       (case map_of payload ''scope'' of
          None \<Rightarrow> Inl (KeyError ''scope'')
        | Some scope \<Rightarrow>
            if scope = PStr ''email_token''
            then (case map_of payload ''sub'' of None \<Rightarrow> Inl (KeyError ''sub'') | Some email \<Rightarrow> Inr email)
            else Inl (HTTPException 401 ''Invalid scope for token'' None))"
  by (simp add: get_email_from_token_def dict_getitem_def split: option.splits)

lemma decode_refresh_token_other_scope:
  "jwt_decode tok (secret_key cfg) [algorithm cfg] = Inr payload \<Longrightarrow>
   dict_get payload ''scope'' \<noteq> PStr ''refresh_token'' \<Longrightarrow>
     decode_refresh_token jwt_decode cfg tok \<noteq> Inr email"
  by (auto simp: decode_refresh_token_payload dict_get_def split: option.splits)

lemma get_email_from_token_other_scope:
  "jwt_decode tok (secret_key cfg) [algorithm cfg] = Inr payload \<Longrightarrow>
   dict_get payload ''scope'' \<noteq> PStr ''email_token'' \<Longrightarrow>
     get_email_from_token jwt_decode cfg tok \<noteq> Inr email"
  by (auto simp: get_email_from_token_payload dict_get_def split: option.splits)

lemma decode_refresh_token_stamp_access:
  "decode_refresh_token (jwt_decode_at now) cfg
      (encode (stamp d iat expire ''access_token'') (secret_key cfg) (algorithm cfg)) =
     (if expire < now then Inl (HTTPException 401 ''Could not validate credentials'' None)
      else Inl (HTTPException 401 ''Invalid scope for token'' None))"
  by (simp add: decode_refresh_token_def decode_stamp dict_getitem_def map_of_stamp)

lemma get_email_from_token_stamp_access:
  "get_email_from_token (jwt_decode_at now) cfg
      (encode (stamp d iat expire ''access_token'') (secret_key cfg) (algorithm cfg)) =
     (if expire < now then Inl (HTTPException 422 ''Invalid token for email verification'' None)
      else Inl (HTTPException 401 ''Invalid scope for token'' None))"
  by (simp add: get_email_from_token_def decode_stamp dict_getitem_def map_of_stamp)

lemma access_token_form:
  "create_access_token enc cfg h data ed t1 t2 = (h', Inr tok) \<Longrightarrow>
     \<exists>expire. tok = enc (stamp (h ! data) t2 expire ''access_token'') (secret_key cfg) (algorithm cfg)"
  by (auto simp: create_access_token_unfold split: sum.splits)

section \<open>Issuing tokens: stamps, lifetimes and the caller's dictionary\<close>

text \<open>
  C7. Every issuing call that returns a token has handed to the encoder, under the
  configured key and algorithm, claims whose \<^verbatim>\<open>iat\<close> is the clock reading taken for
  it and whose \<^verbatim>\<open>scope\<close> is the fixed tag of the operation (\<^verbatim>\<open>access_token\<close>,
  \<^verbatim>\<open>refresh_token\<close>, \<^verbatim>\<open>email_token\<close>), whatever the caller's dictionary holds. A call
  that returns no token has raised \<^verbatim>\<open>OverflowError\<close>: its expiry date does not exist.
\<close>

theorem issuance_stamps_iat_and_scope:
  "(create_access_token enc cfg h data ed t1 t2 = (h', Inr tok) \<longrightarrow>
      tok = enc (last h') (secret_key cfg) (algorithm cfg) \<and>
      dict_get (last h') ''iat'' = PDatetime t2 \<and>
      dict_get (last h') ''scope'' = PStr ''access_token'') \<and>
   (create_refresh_token enc cfg h data ed t1 t2 = (h', Inr tok) \<longrightarrow>
      tok = enc (last h') (secret_key cfg) (algorithm cfg) \<and>
      dict_get (last h') ''iat'' = PDatetime t2 \<and>
      dict_get (last h') ''scope'' = PStr ''refresh_token'') \<and>
   (create_email_token enc cfg h data t1 t2 = (h', Inr tok) \<longrightarrow>
      tok = enc (last h') (secret_key cfg) (algorithm cfg) \<and>
      dict_get (last h') ''iat'' = PDatetime t2 \<and>
      dict_get (last h') ''scope'' = PStr ''email_token'') \<and>
   (create_access_token enc cfg h data ed t1 t2 = (h', Inl e) \<longrightarrow> e = OverflowError) \<and>
   (create_refresh_token enc cfg h data ed t1 t2 = (h', Inl e) \<longrightarrow> e = OverflowError) \<and>
   (create_email_token enc cfg h data t1 t2 = (h', Inl e) \<longrightarrow> e = OverflowError)"
proof (intro conjI impI)
  assume "create_access_token enc cfg h data ed t1 t2 = (h', Inl e)"
  then show "e = OverflowError" by (rule create_access_token_raises)
next
  assume "create_refresh_token enc cfg h data ed t1 t2 = (h', Inl e)"
  then show "e = OverflowError" by (rule create_refresh_token_raises)
next
  assume "create_email_token enc cfg h data t1 t2 = (h', Inl e)"
  then show "e = OverflowError" by (rule create_email_token_raises)
next
  assume "create_access_token enc cfg h data ed t1 t2 = (h', Inr tok)"
  then obtain expire where
    "h' = h @ [stamp (h ! data) t2 expire ''access_token'']"
    "tok = enc (stamp (h ! data) t2 expire ''access_token'') (secret_key cfg) (algorithm cfg)"
    by (auto simp: create_access_token_unfold split: sum.splits)
  then show "tok = enc (last h') (secret_key cfg) (algorithm cfg)"
    "dict_get (last h') ''iat'' = PDatetime t2"
    "dict_get (last h') ''scope'' = PStr ''access_token''"
    by (simp_all add: dict_get_stamp)
next
  assume "create_refresh_token enc cfg h data ed t1 t2 = (h', Inr tok)"
  then obtain expire where
    "h' = h @ [stamp (h ! data) t2 expire ''refresh_token'']"
    "tok = enc (stamp (h ! data) t2 expire ''refresh_token'') (secret_key cfg) (algorithm cfg)"
    by (auto simp: create_refresh_token_unfold split: sum.splits)
  then show "tok = enc (last h') (secret_key cfg) (algorithm cfg)"
    "dict_get (last h') ''iat'' = PDatetime t2"
    "dict_get (last h') ''scope'' = PStr ''refresh_token''"
    by (simp_all add: dict_get_stamp)
next
  assume "create_email_token enc cfg h data t1 t2 = (h', Inr tok)"
  then obtain expire where
    "h' = h @ [stamp (h ! data) t2 expire ''email_token'']"
    "tok = enc (stamp (h ! data) t2 expire ''email_token'') (secret_key cfg) (algorithm cfg)"
    by (auto simp: create_email_token_unfold split: sum.splits)
  then show "tok = enc (last h') (secret_key cfg) (algorithm cfg)"
    "dict_get (last h') ''iat'' = PDatetime t2"
    "dict_get (last h') ''scope'' = PStr ''email_token''"
    by (simp_all add: dict_get_stamp)
qed


theorem issuance_stamps_iat_and_scope_witness:
  "create_access_token encode cfg0 [alice] 0 None 1000000 1000007
     = ([alice, access_claims], Inr access_tok) \<and>
   dict_get access_claims ''iat'' = PDatetime 1000007 \<and>
   dict_get access_claims ''scope'' = PStr ''access_token'' \<and>
   create_refresh_token encode cfg0 [alice] 0 None 1000000 1000007
     = ([alice, refresh_claims], Inr refresh_tok) \<and>
   dict_get refresh_claims ''iat'' = PDatetime 1000007 \<and>
   dict_get refresh_claims ''scope'' = PStr ''refresh_token'' \<and>
   create_email_token encode cfg0 [alice] 0 1000000 1000007
     = ([alice, email_claims], Inr email_tok) \<and>
   dict_get email_claims ''iat'' = PDatetime 1000007 \<and>
   dict_get email_claims ''scope'' = PStr ''email_token'' \<and>
   dict_get alice ''scope'' = PStr ''admin'' \<and>
   create_access_token encode cfg0 [alice] 0 None datetime_max 1000007
     = ([alice, alice], Inl OverflowError)"
proof -
  note a = issue_alice(1) and r = issue_alice(2) and e = issue_alice(3)
  have A: "dict_get (last [alice, access_claims]) ''iat'' = PDatetime 1000007 \<and>
      dict_get (last [alice, access_claims]) ''scope'' = PStr ''access_token''"
    using a issuance_stamps_iat_and_scope
      [of encode cfg0 "[alice]" 0 None 1000000 1000007 "[alice, access_claims]" access_tok]
    by blast
  have R: "dict_get (last [alice, refresh_claims]) ''iat'' = PDatetime 1000007 \<and>
      dict_get (last [alice, refresh_claims]) ''scope'' = PStr ''refresh_token''"
    using r issuance_stamps_iat_and_scope
      [of encode cfg0 "[alice]" 0 None 1000000 1000007 "[alice, refresh_claims]" refresh_tok]
    by blast
  have E: "dict_get (last [alice, email_claims]) ''iat'' = PDatetime 1000007 \<and>
      dict_get (last [alice, email_claims]) ''scope'' = PStr ''email_token''"
    using e issuance_stamps_iat_and_scope
      [of encode cfg0 "[alice]" 0 None 1000000 1000007 "[alice, email_claims]" email_tok]
    by blast
  have S: "dict_get alice ''scope'' = PStr ''admin''"
    by (simp add: dict_get_def alice_def)
  have O: "create_access_token encode cfg0 [alice] 0 None datetime_max 1000007
     = ([alice, alice], Inl OverflowError)"
    by (simp add: create_access_token_unfold truthy_def timedelta_minutes_15 datetime_add_Inr
          us_per_second_def)
  from a r e A R E S O show ?thesis by simp
qed

text \<open>
  C10. No issuing function changes the caller's dictionary: after the call, whether it
  returned a token or raised, the object \<open>data\<close> refers to, and every other object that
  existed before, is as it was. And whenever the expiry date \<open>expire\<close> exists, the call
  returns the token that encodes a new dictionary with the caller's keys and values,
  except that \<^verbatim>\<open>iat\<close>, \<^verbatim>\<open>exp\<close> and \<^verbatim>\<open>scope\<close> hold the clock reading, \<open>expire\<close> and the
  tag of the operation, whatever the caller had put under those keys.
\<close>

theorem issuance_leaves_data_unchanged:
  "data < length h \<Longrightarrow>
     (fst (create_access_token enc cfg h data ed t1 t2) ! data = h ! data \<and>
      take (length h) (fst (create_access_token enc cfg h data ed t1 t2)) = h \<and>
      (\<forall>expire. access_expire ed t1 = Inr expire \<longrightarrow>
         snd (create_access_token enc cfg h data ed t1 t2) =
           Inr (enc (last (fst (create_access_token enc cfg h data ed t1 t2)))
                  (secret_key cfg) (algorithm cfg)) \<and>
         stamped (h ! data) (last (fst (create_access_token enc cfg h data ed t1 t2)))
           t2 expire ''access_token'')) \<and>
     (fst (create_refresh_token enc cfg h data ed t1 t2) ! data = h ! data \<and>
      take (length h) (fst (create_refresh_token enc cfg h data ed t1 t2)) = h \<and>
      (\<forall>expire. refresh_expire ed t1 = Inr expire \<longrightarrow>
         snd (create_refresh_token enc cfg h data ed t1 t2) =
           Inr (enc (last (fst (create_refresh_token enc cfg h data ed t1 t2)))
                  (secret_key cfg) (algorithm cfg)) \<and>
         stamped (h ! data) (last (fst (create_refresh_token enc cfg h data ed t1 t2)))
           t2 expire ''refresh_token'')) \<and>
     (fst (create_email_token enc cfg h data t1 t2) ! data = h ! data \<and>
      take (length h) (fst (create_email_token enc cfg h data t1 t2)) = h \<and>
      (\<forall>expire. email_expire t1 = Inr expire \<longrightarrow>
         snd (create_email_token enc cfg h data t1 t2) =
           Inr (enc (last (fst (create_email_token enc cfg h data t1 t2)))
                  (secret_key cfg) (algorithm cfg)) \<and>
         stamped (h ! data) (last (fst (create_email_token enc cfg h data t1 t2)))
           t2 expire ''email_token''))"
proof -
  assume valid: "data < length h"
  have a: "fst (create_access_token enc cfg h data ed t1 t2) ! data = h ! data \<and>
      take (length h) (fst (create_access_token enc cfg h data ed t1 t2)) = h"
    using fst_create_access_token [of enc cfg h data ed t1 t2] frame_append [OF valid] by blast
  have r: "fst (create_refresh_token enc cfg h data ed t1 t2) ! data = h ! data \<and>
      take (length h) (fst (create_refresh_token enc cfg h data ed t1 t2)) = h"
    using fst_create_refresh_token [of enc cfg h data ed t1 t2] frame_append [OF valid] by blast
  have e: "fst (create_email_token enc cfg h data t1 t2) ! data = h ! data \<and>
      take (length h) (fst (create_email_token enc cfg h data t1 t2)) = h"
    using fst_create_email_token [of enc cfg h data t1 t2] frame_append [OF valid] by blast
  have a': "\<forall>expire. access_expire ed t1 = Inr expire \<longrightarrow>
         snd (create_access_token enc cfg h data ed t1 t2) =
           Inr (enc (last (fst (create_access_token enc cfg h data ed t1 t2)))
                  (secret_key cfg) (algorithm cfg)) \<and>
         stamped (h ! data) (last (fst (create_access_token enc cfg h data ed t1 t2)))
           t2 expire ''access_token''"
    by (simp add: access_returns [of ed t1 _ enc cfg h data t2] stamped_stamp)
  have r': "\<forall>expire. refresh_expire ed t1 = Inr expire \<longrightarrow>
         snd (create_refresh_token enc cfg h data ed t1 t2) =
           Inr (enc (last (fst (create_refresh_token enc cfg h data ed t1 t2)))
                  (secret_key cfg) (algorithm cfg)) \<and>
         stamped (h ! data) (last (fst (create_refresh_token enc cfg h data ed t1 t2)))
           t2 expire ''refresh_token''"
    by (simp add: refresh_returns [of ed t1 _ enc cfg h data t2] stamped_stamp)
  have e': "\<forall>expire. email_expire t1 = Inr expire \<longrightarrow>
         snd (create_email_token enc cfg h data t1 t2) =
           Inr (enc (last (fst (create_email_token enc cfg h data t1 t2)))
                  (secret_key cfg) (algorithm cfg)) \<and>
         stamped (h ! data) (last (fst (create_email_token enc cfg h data t1 t2)))
           t2 expire ''email_token''"
    by (simp add: email_returns [of t1 _ enc cfg h data t2] stamped_stamp)
  from a r e a' r' e' show ?thesis by blast
qed

theorem issuance_leaves_data_unchanged_witness:
  "(1::nat) < length [alice, bob] \<and>
   [alice, bob] ! 1 =
     [(''sub'', PStr ''b@c.org''), (''exp'', PDatetime 5), (''scope'', PStr ''admin''),
      (''iat'', PStr ''never''), (''role'', PStr ''owner'')] \<and>
   access_expire None 1000000 = Inr 901000000 \<and>
   create_access_token encode cfg0 [alice, bob] 1 None 1000000 1000007 =
     ([alice, bob,
       [(''sub'', PStr ''b@c.org''), (''exp'', PDatetime 901000000),
        (''scope'', PStr ''access_token''), (''iat'', PDatetime 1000007),
        (''role'', PStr ''owner'')]],
      Inr (encode
        [(''sub'', PStr ''b@c.org''), (''exp'', PDatetime 901000000),
         (''scope'', PStr ''access_token''), (''iat'', PDatetime 1000007),
         (''role'', PStr ''owner'')] ''s3cret'' ''HS256'')) \<and>
   stamped bob (last (fst (create_access_token encode cfg0 [alice, bob] 1 None 1000000 1000007)))
     1000007 901000000 ''access_token'' \<and>
   fst (create_access_token encode cfg0 [alice, bob] 1 None 1000000 1000007) ! 1 = bob \<and>
   refresh_expire (Some 3600) 1000000 = Inr 3601000000 \<and>
   create_refresh_token encode cfg0 [alice, bob] 1 (Some 3600) 1000000 1000007 =
     ([alice, bob,
       [(''sub'', PStr ''b@c.org''), (''exp'', PDatetime 3601000000),
        (''scope'', PStr ''refresh_token''), (''iat'', PDatetime 1000007),
        (''role'', PStr ''owner'')]],
      Inr (encode
        [(''sub'', PStr ''b@c.org''), (''exp'', PDatetime 3601000000),
         (''scope'', PStr ''refresh_token''), (''iat'', PDatetime 1000007),
         (''role'', PStr ''owner'')] ''s3cret'' ''HS256'')) \<and>
   stamped bob (last (fst (create_refresh_token encode cfg0 [alice, bob] 1 (Some 3600) 1000000 1000007)))
     1000007 3601000000 ''refresh_token'' \<and>
   fst (create_refresh_token encode cfg0 [alice, bob] 1 (Some 3600) 1000000 1000007) ! 1 = bob \<and>
   email_expire 1000000 = Inr 604801000000 \<and>
   create_email_token encode cfg0 [alice, bob] 1 1000000 1000007 =
     ([alice, bob,
       [(''sub'', PStr ''b@c.org''), (''exp'', PDatetime 604801000000),
        (''scope'', PStr ''email_token''), (''iat'', PDatetime 1000007),
        (''role'', PStr ''owner'')]],
      Inr (encode
        [(''sub'', PStr ''b@c.org''), (''exp'', PDatetime 604801000000),
         (''scope'', PStr ''email_token''), (''iat'', PDatetime 1000007),
         (''role'', PStr ''owner'')] ''s3cret'' ''HS256'')) \<and>
   stamped bob (last (fst (create_email_token encode cfg0 [alice, bob] 1 1000000 1000007)))
     1000007 604801000000 ''email_token'' \<and>
   fst (create_email_token encode cfg0 [alice, bob] 1 1000000 1000007) ! 1 = bob \<and>
   create_access_token encode cfg0 [alice, bob] 1 None datetime_max 1000007 =
     ([alice, bob, bob], Inl OverflowError) \<and>
   fst (create_access_token encode cfg0 [alice, bob] 1 None datetime_max 1000007) ! 1 = bob"
proof -
  have valid: "(1::nat) < length [alice, bob]" by simp
  have xa: "access_expire None 1000000 = Inr 901000000"
    by (simp add: access_expire_def truthy_def timedelta_minutes_15 datetime_add_Inr time_defs)
  have xr: "refresh_expire (Some 3600) 1000000 = Inr 3601000000"
    by (simp add: refresh_expire_def truthy_def timedelta_seconds_eq datetime_add_Inr time_defs)
  have xe: "email_expire 1000000 = Inr 604801000000"
    by (simp add: email_expire_def timedelta_days_7 datetime_add_Inr time_defs)
  note now = issuance_leaves_data_unchanged [OF valid, of encode cfg0 None 1000000 1000007]
  note later = issuance_leaves_data_unchanged [OF valid, of encode cfg0 "Some 3600" 1000000 1000007]
  note never = issuance_leaves_data_unchanged [OF valid, of encode cfg0 None datetime_max 1000007]
  have "stamped ([alice, bob] ! 1)
      (last (fst (create_access_token encode cfg0 [alice, bob] 1 None 1000000 1000007)))
      1000007 901000000 ''access_token''"
    using now xa by blast
  then have sa: "stamped bob
      (last (fst (create_access_token encode cfg0 [alice, bob] 1 None 1000000 1000007)))
      1000007 901000000 ''access_token''"
    by simp
  have "stamped ([alice, bob] ! 1)
      (last (fst (create_refresh_token encode cfg0 [alice, bob] 1 (Some 3600) 1000000 1000007)))
      1000007 3601000000 ''refresh_token''"
    using later xr by blast
  then have sr: "stamped bob
      (last (fst (create_refresh_token encode cfg0 [alice, bob] 1 (Some 3600) 1000000 1000007)))
      1000007 3601000000 ''refresh_token''"
    by simp
  have "stamped ([alice, bob] ! 1)
      (last (fst (create_email_token encode cfg0 [alice, bob] 1 1000000 1000007)))
      1000007 604801000000 ''email_token''"
    using now xe by blast
  then have se: "stamped bob
      (last (fst (create_email_token encode cfg0 [alice, bob] 1 1000000 1000007)))
      1000007 604801000000 ''email_token''"
    by simp
  have "fst (create_access_token encode cfg0 [alice, bob] 1 None 1000000 1000007) ! 1 = [alice, bob] ! 1"
    using now by blast
  then have fa: "fst (create_access_token encode cfg0 [alice, bob] 1 None 1000000 1000007) ! 1 = bob"
    by simp
  have "fst (create_refresh_token encode cfg0 [alice, bob] 1 (Some 3600) 1000000 1000007) ! 1 = [alice, bob] ! 1"
    using later by blast
  then have fr: "fst (create_refresh_token encode cfg0 [alice, bob] 1 (Some 3600) 1000000 1000007) ! 1 = bob"
    by simp
  have "fst (create_email_token encode cfg0 [alice, bob] 1 1000000 1000007) ! 1 = [alice, bob] ! 1"
    using now by blast
  then have fe: "fst (create_email_token encode cfg0 [alice, bob] 1 1000000 1000007) ! 1 = bob"
    by simp
  have "fst (create_access_token encode cfg0 [alice, bob] 1 None datetime_max 1000007) ! 1 = [alice, bob] ! 1"
    using never by blast
  then have fo: "fst (create_access_token encode cfg0 [alice, bob] 1 None datetime_max 1000007) ! 1 = bob"
    by simp
  have ca: "create_access_token encode cfg0 [alice, bob] 1 None 1000000 1000007 =
     ([alice, bob,
       [(''sub'', PStr ''b@c.org''), (''exp'', PDatetime 901000000),
        (''scope'', PStr ''access_token''), (''iat'', PDatetime 1000007),
        (''role'', PStr ''owner'')]],
      Inr (encode
        [(''sub'', PStr ''b@c.org''), (''exp'', PDatetime 901000000),
         (''scope'', PStr ''access_token''), (''iat'', PDatetime 1000007),
         (''role'', PStr ''owner'')] ''s3cret'' ''HS256''))"
    by (simp add: access_returns [OF xa] cfg0_def stamp_def dict_update_def bob_def)
  have cr: "create_refresh_token encode cfg0 [alice, bob] 1 (Some 3600) 1000000 1000007 =
     ([alice, bob,
       [(''sub'', PStr ''b@c.org''), (''exp'', PDatetime 3601000000),
        (''scope'', PStr ''refresh_token''), (''iat'', PDatetime 1000007),
        (''role'', PStr ''owner'')]],
      Inr (encode
        [(''sub'', PStr ''b@c.org''), (''exp'', PDatetime 3601000000),
         (''scope'', PStr ''refresh_token''), (''iat'', PDatetime 1000007),
         (''role'', PStr ''owner'')] ''s3cret'' ''HS256''))"
    by (simp add: refresh_returns [OF xr] cfg0_def stamp_def dict_update_def bob_def)
  have ce: "create_email_token encode cfg0 [alice, bob] 1 1000000 1000007 =
     ([alice, bob,
       [(''sub'', PStr ''b@c.org''), (''exp'', PDatetime 604801000000),
        (''scope'', PStr ''email_token''), (''iat'', PDatetime 1000007),
        (''role'', PStr ''owner'')]],
      Inr (encode
        [(''sub'', PStr ''b@c.org''), (''exp'', PDatetime 604801000000),
         (''scope'', PStr ''email_token''), (''iat'', PDatetime 1000007),
         (''role'', PStr ''owner'')] ''s3cret'' ''HS256''))"
    by (simp add: email_returns [OF xe] cfg0_def stamp_def dict_update_def bob_def)
  have co: "create_access_token encode cfg0 [alice, bob] 1 None datetime_max 1000007 =
     ([alice, bob, bob], Inl OverflowError)"
    by (simp add: create_access_token_unfold truthy_def timedelta_minutes_15 datetime_add_Inr
          us_per_second_def)
  have b: "[alice, bob] ! 1 =
     [(''sub'', PStr ''b@c.org''), (''exp'', PDatetime 5), (''scope'', PStr ''admin''),
      (''iat'', PStr ''never''), (''role'', PStr ''owner'')]"
    by (simp add: bob_def)
  show ?thesis
    by (intro conjI) (rule valid b xa xr xe sa sr se fa fr fe fo ca cr ce co)+
qed

text \<open>
  C9. With \<^verbatim>\<open>expires_delta\<close> equal to 0 the override is not taken:
  \<^verbatim>\<open>create_access_token\<close> and \<^verbatim>\<open>create_refresh_token\<close> behave as without the argument,
  and the issued token's \<^verbatim>\<open>exp\<close> is the clock reading plus the default lifetime (15
  minutes, 7 days), as long as that date exists.
\<close>

theorem zero_expires_delta_is_default:
  "(datetime_min \<le> t1 + 15 * 60 * us_per_second \<and> t1 + 15 * 60 * us_per_second \<le> datetime_max \<longrightarrow>
      issued enc cfg (create_access_token enc cfg h data (Some 0) t1 t2)
        (PDatetime (t1 + 15 * 60 * us_per_second))) \<and>
   (datetime_min \<le> t1 + 7 * us_per_day \<and> t1 + 7 * us_per_day \<le> datetime_max \<longrightarrow>
      issued enc cfg (create_refresh_token enc cfg h data (Some 0) t1 t2)
        (PDatetime (t1 + 7 * us_per_day))) \<and>
   create_access_token enc cfg h data (Some 0) t1 t2 = create_access_token enc cfg h data None t1 t2 \<and>
   create_refresh_token enc cfg h data (Some 0) t1 t2 = create_refresh_token enc cfg h data None t1 t2"
proof (intro conjI impI)
  assume "datetime_min \<le> t1 + 15 * 60 * us_per_second \<and> t1 + 15 * 60 * us_per_second \<le> datetime_max"
  then have "datetime_add t1 (if truthy (Some 0) then timedelta_seconds (the (Some 0)) else timedelta_minutes 15)
      = Inr (t1 + 15 * 60 * us_per_second)"
    by (simp add: truthy_def timedelta_minutes_15 datetime_add_Inr)
  from access_issue [OF this, of enc cfg h data t2]
  show "issued enc cfg (create_access_token enc cfg h data (Some 0) t1 t2)
        (PDatetime (t1 + 15 * 60 * us_per_second))"
    by (simp add: issued_stamp)
next
  assume "datetime_min \<le> t1 + 7 * us_per_day \<and> t1 + 7 * us_per_day \<le> datetime_max"
  then have "datetime_add t1 (if truthy (Some 0) then timedelta_seconds (the (Some 0)) else timedelta_days 7)
      = Inr (t1 + 7 * us_per_day)"
    by (simp add: truthy_def timedelta_days_7 datetime_add_Inr)
  from refresh_issue [OF this, of enc cfg h data t2]
  show "issued enc cfg (create_refresh_token enc cfg h data (Some 0) t1 t2)
        (PDatetime (t1 + 7 * us_per_day))"
    by (simp add: issued_stamp)
next
  show "create_access_token enc cfg h data (Some 0) t1 t2 = create_access_token enc cfg h data None t1 t2"
    by (simp add: create_access_token_unfold truthy_def)
  show "create_refresh_token enc cfg h data (Some 0) t1 t2 = create_refresh_token enc cfg h data None t1 t2"
    by (simp add: create_refresh_token_unfold truthy_def)
qed

theorem zero_expires_delta_is_default_witness:
  "datetime_min \<le> 1000000 + 15 * 60 * us_per_second \<and>
   1000000 + 15 * 60 * us_per_second \<le> datetime_max \<and>
   datetime_min \<le> 1000000 + 7 * us_per_day \<and> 1000000 + 7 * us_per_day \<le> datetime_max \<and>
   issued encode cfg0 (create_access_token encode cfg0 [alice] 0 (Some 0) 1000000 1000007)
     (PDatetime 901000000) \<and>
   issued encode cfg0 (create_refresh_token encode cfg0 [alice] 0 (Some 0) 1000000 1000007)
     (PDatetime 604801000000)"
proof -
  have a: "datetime_min \<le> 1000000 + 15 * 60 * us_per_second \<and>
      1000000 + 15 * 60 * us_per_second \<le> datetime_max"
    by (simp add: time_defs)
  have r: "datetime_min \<le> 1000000 + 7 * us_per_day \<and> 1000000 + 7 * us_per_day \<le> datetime_max"
    by (simp add: time_defs)
  have "issued encode cfg0 (create_access_token encode cfg0 [alice] 0 (Some 0) 1000000 1000007)
     (PDatetime (1000000 + 15 * 60 * us_per_second))"
    using zero_expires_delta_is_default [of 1000000 encode cfg0 "[alice]" 0 1000007] a by blast
  moreover have "issued encode cfg0 (create_refresh_token encode cfg0 [alice] 0 (Some 0) 1000000 1000007)
     (PDatetime (1000000 + 7 * us_per_day))"
    using zero_expires_delta_is_default [of 1000000 encode cfg0 "[alice]" 0 1000007] r by blast
  ultimately show ?thesis using a r by (simp add: time_defs)
qed

text \<open>
  C4, as the code has it by design. Without a duration, an access token expires 15
  minutes after the clock reading and a refresh token 7 days after; an email token
  always expires 7 days after, whatever the caller's dictionary holds:
  \<^verbatim>\<open>create_email_token\<close> takes no duration. For access and refresh tokens a duration
  \<open>d\<close>, a whole number of seconds within the range of \<^verbatim>\<open>timedelta\<close>, gives
  \<^verbatim>\<open>exp\<close> = reading + \<open>d\<close>. Each statement holds when the expiry date is within the
  range of \<^verbatim>\<open>datetime\<close>; a duration or an expiry date outside the ranges raises
  \<^verbatim>\<open>OverflowError\<close>. The statement is made for durations other than 0; what the
  duration 0 does is left out of it.
\<close>

theorem issuance_lifetimes:
  "(datetime_min \<le> t1 + 15 * 60 * us_per_second \<and> t1 + 15 * 60 * us_per_second \<le> datetime_max \<longrightarrow>
      issued enc cfg (create_access_token enc cfg h data None t1 t2)
        (PDatetime (t1 + 15 * 60 * us_per_second))) \<and>
   (datetime_min \<le> t1 + 7 * us_per_day \<and> t1 + 7 * us_per_day \<le> datetime_max \<longrightarrow>
      issued enc cfg (create_refresh_token enc cfg h data None t1 t2)
        (PDatetime (t1 + 7 * us_per_day)) \<and>
      issued enc cfg (create_email_token enc cfg h data t1 t2)
        (PDatetime (t1 + 7 * us_per_day))) \<and>
   (d \<noteq> 0 \<and> - 999999999 \<le> d div 86400 \<and> d div 86400 \<le> 999999999 \<and>
    datetime_min \<le> t1 + d * us_per_second \<and> t1 + d * us_per_second \<le> datetime_max \<longrightarrow>
      issued enc cfg (create_access_token enc cfg h data (Some d) t1 t2)
        (PDatetime (t1 + d * us_per_second)) \<and>
      issued enc cfg (create_refresh_token enc cfg h data (Some d) t1 t2)
        (PDatetime (t1 + d * us_per_second))) \<and>
   (d \<noteq> 0 \<and>
    \<not> (- 999999999 \<le> d div 86400 \<and> d div 86400 \<le> 999999999 \<and>
       datetime_min \<le> t1 + d * us_per_second \<and> t1 + d * us_per_second \<le> datetime_max) \<longrightarrow>
      snd (create_access_token enc cfg h data (Some d) t1 t2) = Inl OverflowError \<and>
      snd (create_refresh_token enc cfg h data (Some d) t1 t2) = Inl OverflowError)"
proof (intro conjI impI)
  assume "d \<noteq> 0 \<and>
    \<not> (- 999999999 \<le> d div 86400 \<and> d div 86400 \<le> 999999999 \<and>
       datetime_min \<le> t1 + d * us_per_second \<and> t1 + d * us_per_second \<le> datetime_max)"
  then have x: "datetime_add t1 (timedelta_seconds d) = Inl OverflowError" and t: "truthy (Some d)"
    by (auto simp: truthy_def timedelta_seconds_eq datetime_add_def)
  from x t show "snd (create_access_token enc cfg h data (Some d) t1 t2) = Inl OverflowError"
    by (simp add: create_access_token_unfold)
  from x t show "snd (create_refresh_token enc cfg h data (Some d) t1 t2) = Inl OverflowError"
    by (simp add: create_refresh_token_unfold)
next
  assume "datetime_min \<le> t1 + 15 * 60 * us_per_second \<and> t1 + 15 * 60 * us_per_second \<le> datetime_max"
  then have "datetime_add t1 (if truthy None then timedelta_seconds (the None) else timedelta_minutes 15)
      = Inr (t1 + 15 * 60 * us_per_second)"
    by (simp add: truthy_def timedelta_minutes_15 datetime_add_Inr)
  from access_issue [OF this, of enc cfg h data t2]
  show "issued enc cfg (create_access_token enc cfg h data None t1 t2)
        (PDatetime (t1 + 15 * 60 * us_per_second))"
    by (simp add: issued_stamp)
next
  assume rg: "datetime_min \<le> t1 + 7 * us_per_day \<and> t1 + 7 * us_per_day \<le> datetime_max"
  then have "datetime_add t1 (if truthy None then timedelta_seconds (the None) else timedelta_days 7)
      = Inr (t1 + 7 * us_per_day)"
    by (simp add: truthy_def timedelta_days_7 datetime_add_Inr)
  from refresh_issue [OF this, of enc cfg h data t2]
  show "issued enc cfg (create_refresh_token enc cfg h data None t1 t2)
        (PDatetime (t1 + 7 * us_per_day))"
    by (simp add: issued_stamp)
  from rg have "datetime_add t1 (timedelta_days 7) = Inr (t1 + 7 * us_per_day)"
    by (simp add: timedelta_days_7 datetime_add_Inr)
  from email_issue [OF this, of enc cfg h data t2]
  show "issued enc cfg (create_email_token enc cfg h data t1 t2)
        (PDatetime (t1 + 7 * us_per_day))"
    by (simp add: issued_stamp)
next
  assume ov: "d \<noteq> 0 \<and> - 999999999 \<le> d div 86400 \<and> d div 86400 \<le> 999999999 \<and>
    datetime_min \<le> t1 + d * us_per_second \<and> t1 + d * us_per_second \<le> datetime_max"
  then have "datetime_add t1 (if truthy (Some d) then timedelta_seconds (the (Some d)) else timedelta_minutes 15)
      = Inr (t1 + d * us_per_second)"
    by (simp add: truthy_def timedelta_seconds_eq datetime_add_Inr)
  from access_issue [OF this, of enc cfg h data t2]
  show "issued enc cfg (create_access_token enc cfg h data (Some d) t1 t2)
        (PDatetime (t1 + d * us_per_second))"
    by (simp add: issued_stamp)
  from ov have "datetime_add t1 (if truthy (Some d) then timedelta_seconds (the (Some d)) else timedelta_days 7)
      = Inr (t1 + d * us_per_second)"
    by (simp add: truthy_def timedelta_seconds_eq datetime_add_Inr)
  from refresh_issue [OF this, of enc cfg h data t2]
  show "issued enc cfg (create_refresh_token enc cfg h data (Some d) t1 t2)
        (PDatetime (t1 + d * us_per_second))"
    by (simp add: issued_stamp)
qed

theorem issuance_lifetimes_witness:
  "issued encode cfg0 (create_access_token encode cfg0 [alice] 0 None 1000000 1000007)
     (PDatetime (1000000 + 15 * 60 * us_per_second)) \<and>
   issued encode cfg0 (create_refresh_token encode cfg0 [alice] 0 None 1000000 1000007)
     (PDatetime (1000000 + 7 * us_per_day)) \<and>
   issued encode cfg0 (create_email_token encode cfg0 [alice] 0 1000000 1000007)
     (PDatetime (1000000 + 7 * us_per_day)) \<and>
   issued encode cfg0 (create_access_token encode cfg0 [alice] 0 (Some 3600) 1000000 1000007)
     (PDatetime (1000000 + 3600 * us_per_second)) \<and>
   issued encode cfg0 (create_refresh_token encode cfg0 [alice] 0 (Some 3600) 1000000 1000007)
     (PDatetime (1000000 + 3600 * us_per_second)) \<and>
   issued encode cfg0 (create_access_token encode cfg0 [alice] 0 (Some (- 1)) 1000000 1000007)
     (PDatetime 0) \<and>
   snd (create_access_token encode cfg0 [alice] 0 (Some 100000000000000) 1000000 1000007)
     = Inl OverflowError \<and>
   snd (create_refresh_token encode cfg0 [alice] 0 (Some 100000000000000) 1000000 1000007)
     = Inl OverflowError"
proof -
  have a: "datetime_min \<le> 1000000 + 15 * 60 * us_per_second \<and>
      1000000 + 15 * 60 * us_per_second \<le> datetime_max"
    by (simp add: time_defs)
  have r: "datetime_min \<le> 1000000 + 7 * us_per_day \<and> 1000000 + 7 * us_per_day \<le> datetime_max"
    by (simp add: time_defs)
  have o: "(3600::int) \<noteq> 0 \<and> - 999999999 \<le> (3600::int) div 86400 \<and> (3600::int) div 86400 \<le> 999999999 \<and>
    datetime_min \<le> 1000000 + 3600 * us_per_second \<and> 1000000 + 3600 * us_per_second \<le> datetime_max"
    by (simp add: time_defs)
  have n: "(- 1::int) \<noteq> 0 \<and> - 999999999 \<le> (- 1::int) div 86400 \<and> (- 1::int) div 86400 \<le> 999999999 \<and>
    datetime_min \<le> 1000000 + (- 1) * us_per_second \<and> 1000000 + (- 1) * us_per_second \<le> datetime_max"
    by (simp add: time_defs)
  have big: "(100000000000000::int) \<noteq> 0 \<and>
    \<not> (- 999999999 \<le> (100000000000000::int) div 86400 \<and>
       (100000000000000::int) div 86400 \<le> 999999999 \<and>
       datetime_min \<le> 1000000 + 100000000000000 * us_per_second \<and>
       1000000 + 100000000000000 * us_per_second \<le> datetime_max)"
    by (simp add: time_defs)
  have z: "PDatetime (1000000 + (- 1) * us_per_second) = PDatetime 0"
    by (simp add: time_defs)
  have "issued encode cfg0 (create_access_token encode cfg0 [alice] 0 (Some (- 1)) 1000000 1000007)
     (PDatetime (1000000 + (- 1) * us_per_second))"
    using n issuance_lifetimes [of 1000000 encode cfg0 "[alice]" 0 1000007 "- 1"] by blast
  then have neg: "issued encode cfg0
      (create_access_token encode cfg0 [alice] 0 (Some (- 1)) 1000000 1000007) (PDatetime 0)"
    by (simp only: z)
  have over: "snd (create_access_token encode cfg0 [alice] 0 (Some 100000000000000) 1000000 1000007)
     = Inl OverflowError \<and>
   snd (create_refresh_token encode cfg0 [alice] 0 (Some 100000000000000) 1000000 1000007)
     = Inl OverflowError"
    using big issuance_lifetimes [of 1000000 encode cfg0 "[alice]" 0 1000007 100000000000000]
    by blast
  from a r o neg over issuance_lifetimes [of 1000000 encode cfg0 "[alice]" 0 1000007 3600]
  show ?thesis by blast
qed

text \<open>
  C4 as stated fails for the email token: its caller has no duration to supply.
  \<^verbatim>\<open>create_email_token\<close> takes the dictionary only, and for a dictionary that asks for
  60 seconds the token still expires 7 days after the clock reading. It also fails for a
  duration beyond the range of \<^verbatim>\<open>timedelta\<close>: the access token for 100000000000000
  seconds is not issued, the call raises \<^verbatim>\<open>OverflowError\<close>.
\<close>

theorem lifetime_override_counterexample:
  "create_email_token encode cfg0 [carol] 0 1000000 1000007 =
     ([carol,
       [(''sub'', PStr ''c@d.net''), (''expires_delta'', PInt 60),
        (''exp'', PDatetime 604801000000), (''iat'', PDatetime 1000007),
        (''scope'', PStr ''email_token'')]],
      Inr (encode
        [(''sub'', PStr ''c@d.net''), (''expires_delta'', PInt 60),
         (''exp'', PDatetime 604801000000), (''iat'', PDatetime 1000007),
         (''scope'', PStr ''email_token'')] ''s3cret'' ''HS256'')) \<and>
   dict_get (last (fst (create_email_token encode cfg0 [carol] 0 1000000 1000007))) ''exp''
     = PDatetime (1000000 + 7 * us_per_day) \<and>
   dict_get (last (fst (create_email_token encode cfg0 [carol] 0 1000000 1000007))) ''exp''
     \<noteq> PDatetime (1000000 + 60 * us_per_second) \<and>
   create_access_token encode cfg0 [alice] 0 (Some 100000000000000) 1000000 1000007 =
     ([alice, alice], Inl OverflowError)"
proof -
  have e: "create_email_token encode cfg0 [carol] 0 1000000 1000007 =
     ([carol,
       [(''sub'', PStr ''c@d.net''), (''expires_delta'', PInt 60),
        (''exp'', PDatetime 604801000000), (''iat'', PDatetime 1000007),
        (''scope'', PStr ''email_token'')]],
      Inr (encode
        [(''sub'', PStr ''c@d.net''), (''expires_delta'', PInt 60),
         (''exp'', PDatetime 604801000000), (''iat'', PDatetime 1000007),
         (''scope'', PStr ''email_token'')] ''s3cret'' ''HS256''))"
    by (simp add: create_email_token_unfold timedelta_days_7 datetime_add_Inr time_defs
          cfg0_def stamp_def dict_update_def carol_def)
  have o: "create_access_token encode cfg0 [alice] 0 (Some 100000000000000) 1000000 1000007 =
     ([alice, alice], Inl OverflowError)"
    by (simp add: create_access_token_unfold truthy_def timedelta_seconds_eq datetime_add_def)
  show ?thesis
    unfolding e by (simp add: o dict_get_def time_defs)
qed

section \<open>Resolving tokens: failures and scopes\<close>

text \<open>
  C1. \<^verbatim>\<open>get_current_user\<close> fails with one and the same exception, status 401 with the
  detail \<^verbatim>\<open>Could not validate credentials\<close>, whenever decoding fails (bad signature,
  malformed token, expired token), the scope is not \<^verbatim>\<open>access_token\<close>, the subject is
  missing or the user is not found; and it has no other failure, so the result does not
  tell the causes apart.
\<close>

theorem get_current_user_opaque_failure:
  "(\<forall>err. jwt_decode token (secret_key cfg) [algorithm cfg] = Inl err \<longrightarrow>
      get_current_user jwt_decode get_user_by_email cfg token = Inl credentials_exception) \<and>
   (\<forall>payload. jwt_decode token (secret_key cfg) [algorithm cfg] = Inr payload \<and>
        (dict_get payload ''scope'' \<noteq> PStr ''access_token'' \<or>
         dict_get payload ''sub'' = PNone \<or>
         get_user_by_email (dict_get payload ''sub'') = None) \<longrightarrow>
      get_current_user jwt_decode get_user_by_email cfg token = Inl credentials_exception) \<and>
   (\<forall>e. get_current_user jwt_decode get_user_by_email cfg token = Inl e \<longrightarrow>
      e = credentials_exception) \<and>
   status_code credentials_exception = 401 \<and>
   detail credentials_exception = ''Could not validate credentials''"
proof (intro conjI allI impI)
  fix err
  assume "jwt_decode token (secret_key cfg) [algorithm cfg] = Inl err"
  then show "get_current_user jwt_decode get_user_by_email cfg token = Inl credentials_exception"
    by (rule get_current_user_decode_failure)
next
  fix payload
  assume a: "jwt_decode token (secret_key cfg) [algorithm cfg] = Inr payload \<and>
        (dict_get payload ''scope'' \<noteq> PStr ''access_token'' \<or>
         dict_get payload ''sub'' = PNone \<or>
         get_user_by_email (dict_get payload ''sub'') = None)"
  then have d: "jwt_decode token (secret_key cfg) [algorithm cfg] = Inr payload"
    by (rule conjunct1)
  from a have "dict_get payload ''scope'' \<noteq> PStr ''access_token'' \<or>
         dict_get payload ''sub'' = PNone \<or>
         get_user_by_email (dict_get payload ''sub'') = None"
    by (rule conjunct2)
  then show "get_current_user jwt_decode get_user_by_email cfg token = Inl credentials_exception"
  proof
    assume "dict_get payload ''scope'' \<noteq> PStr ''access_token''"
    with d show ?thesis by (rule get_current_user_wrong_scope)
  next
    assume "dict_get payload ''sub'' = PNone \<or> get_user_by_email (dict_get payload ''sub'') = None"
    then show ?thesis
    proof
      assume "dict_get payload ''sub'' = PNone"
      with d show ?thesis by (rule get_current_user_no_sub)
    next
      assume "get_user_by_email (dict_get payload ''sub'') = None"
      with d show ?thesis by (rule get_current_user_no_user)
    qed
  qed
next
  fix e
  assume "get_current_user jwt_decode get_user_by_email cfg token = Inl e"
  then show "e = credentials_exception"
    by (rule get_current_user_only_failure)
next
  show "status_code credentials_exception = 401"
    by (simp add: credentials_exception_def)
  show "detail credentials_exception = ''Could not validate credentials''"
    by (simp add: credentials_exception_def)
qed

theorem get_current_user_opaque_failure_witness:
  "jwt_decode_at 2000000 (Unparsable ''abc.def'') (secret_key cfg0) [algorithm cfg0]
     = Inl MalformedTokenError \<and>
   get_current_user (jwt_decode_at 2000000) lookup0 cfg0 (Unparsable ''abc.def'')
     = Inl credentials_exception \<and>
   jwt_decode_at 901000001 access_tok (secret_key cfg0) [algorithm cfg0] = Inl ExpiredTokenError \<and>
   get_current_user (jwt_decode_at 901000001) lookup0 cfg0 access_tok = Inl credentials_exception \<and>
   jwt_decode_at 2000000 refresh_tok (secret_key cfg0) [algorithm cfg0] = Inr refresh_claims \<and>
   dict_get refresh_claims ''scope'' = PStr ''refresh_token'' \<and>
   get_current_user (jwt_decode_at 2000000) lookup0 cfg0 refresh_tok = Inl credentials_exception \<and>
   jwt_decode_at 2000000 access_tok (secret_key cfg0) [algorithm cfg0] = Inr access_claims \<and>
   get_current_user (jwt_decode_at 2000000) (\<lambda>email. None :: string option) cfg0 access_tok
     = Inl credentials_exception \<and>
   get_current_user (jwt_decode_at 2000000) lookup0 cfg0 access_tok = Inr ''user a''"
proof -
  have m: "jwt_decode_at 2000000 (Unparsable ''abc.def'') (secret_key cfg0) [algorithm cfg0]
     = Inl MalformedTokenError"
    by (simp add: cfg0_def example_decodes)
  have x: "jwt_decode_at 901000001 access_tok (secret_key cfg0) [algorithm cfg0] = Inl ExpiredTokenError"
    by (simp add: cfg0_def example_decodes)
  have r: "jwt_decode_at 2000000 refresh_tok (secret_key cfg0) [algorithm cfg0] = Inr refresh_claims"
    by (simp add: cfg0_def example_decodes)
  have a: "jwt_decode_at 2000000 access_tok (secret_key cfg0) [algorithm cfg0] = Inr access_claims"
    by (simp add: cfg0_def example_decodes)
  have rs: "dict_get refresh_claims ''scope'' \<noteq> PStr ''access_token''"
    by (simp add: example_claims)
  have "get_current_user (jwt_decode_at 2000000) lookup0 cfg0 (Unparsable ''abc.def'')
     = Inl credentials_exception"
    using m get_current_user_opaque_failure
      [of "jwt_decode_at 2000000" "Unparsable ''abc.def''" cfg0 lookup0]
    by blast
  moreover have "get_current_user (jwt_decode_at 901000001) lookup0 cfg0 access_tok
     = Inl credentials_exception"
    using x get_current_user_opaque_failure [of "jwt_decode_at 901000001" access_tok cfg0 lookup0]
    by blast
  moreover have "get_current_user (jwt_decode_at 2000000) lookup0 cfg0 refresh_tok
     = Inl credentials_exception"
    using r rs get_current_user_opaque_failure [of "jwt_decode_at 2000000" refresh_tok cfg0 lookup0]
    by blast
  moreover have "get_current_user (jwt_decode_at 2000000) (\<lambda>email. None :: string option) cfg0 access_tok
     = Inl credentials_exception"
    using a get_current_user_opaque_failure
      [of "jwt_decode_at 2000000" access_tok cfg0 "\<lambda>email. None :: string option"]
    by blast
  moreover have "get_current_user (jwt_decode_at 2000000) lookup0 cfg0 access_tok = Inr ''user a''"
    by (simp add: get_current_user_def a example_claims lookup0_def)
  ultimately show ?thesis
    using m x r a by (simp add: example_claims)
qed

text \<open>
  C2. A token that \<^verbatim>\<open>create_access_token\<close> issued is rejected by
  \<^verbatim>\<open>decode_refresh_token\<close> and by \<^verbatim>\<open>get_email_from_token\<close> at any time, for every
  caller's dictionary; and whatever the decoder, neither function returns an email for a
  payload whose scope is not the one it expects.
\<close>

theorem access_token_rejected_elsewhere:
  "(create_access_token encode cfg h data ed t1 t2 = (h', Inr tok) \<longrightarrow>
      (decode_refresh_token (jwt_decode_at now) cfg tok =
         Inl (HTTPException 401 ''Invalid scope for token'' None) \<or>
       decode_refresh_token (jwt_decode_at now) cfg tok =
         Inl (HTTPException 401 ''Could not validate credentials'' None)) \<and>
      (get_email_from_token (jwt_decode_at now) cfg tok =
         Inl (HTTPException 401 ''Invalid scope for token'' None) \<or>
       get_email_from_token (jwt_decode_at now) cfg tok =
         Inl (HTTPException 422 ''Invalid token for email verification'' None))) \<and>
   (\<forall>payload email. jwt_decode tok' (secret_key cfg) [algorithm cfg] = Inr payload \<and>
        dict_get payload ''scope'' \<noteq> PStr ''refresh_token'' \<longrightarrow>
      decode_refresh_token jwt_decode cfg tok' \<noteq> Inr email) \<and>
   (\<forall>payload email. jwt_decode tok' (secret_key cfg) [algorithm cfg] = Inr payload \<and>
        dict_get payload ''scope'' \<noteq> PStr ''email_token'' \<longrightarrow>
      get_email_from_token jwt_decode cfg tok' \<noteq> Inr email)"
proof (intro conjI allI impI)
  assume "create_access_token encode cfg h data ed t1 t2 = (h', Inr tok)"
  then obtain expire where
    tok: "tok = encode (stamp (h ! data) t2 expire ''access_token'') (secret_key cfg) (algorithm cfg)"
    using access_token_form [of encode cfg h data ed t1 t2 h' tok] by blast
  show "decode_refresh_token (jwt_decode_at now) cfg tok =
         Inl (HTTPException 401 ''Invalid scope for token'' None) \<or>
       decode_refresh_token (jwt_decode_at now) cfg tok =
         Inl (HTTPException 401 ''Could not validate credentials'' None)"
    unfolding tok decode_refresh_token_stamp_access by simp
  show "get_email_from_token (jwt_decode_at now) cfg tok =
         Inl (HTTPException 401 ''Invalid scope for token'' None) \<or>
       get_email_from_token (jwt_decode_at now) cfg tok =
         Inl (HTTPException 422 ''Invalid token for email verification'' None)"
    unfolding tok get_email_from_token_stamp_access by simp
next
  fix payload email
  assume "jwt_decode tok' (secret_key cfg) [algorithm cfg] = Inr payload \<and>
        dict_get payload ''scope'' \<noteq> PStr ''refresh_token''"
  then show "decode_refresh_token jwt_decode cfg tok' \<noteq> Inr email"
    using decode_refresh_token_other_scope [of jwt_decode tok' cfg payload email] by blast
next
  fix payload email
  assume "jwt_decode tok' (secret_key cfg) [algorithm cfg] = Inr payload \<and>
        dict_get payload ''scope'' \<noteq> PStr ''email_token''"
  then show "get_email_from_token jwt_decode cfg tok' \<noteq> Inr email"
    using get_email_from_token_other_scope [of jwt_decode tok' cfg payload email] by blast
qed

theorem access_token_rejected_elsewhere_witness:
  "create_access_token encode cfg0 [alice] 0 None 1000000 1000007 = ([alice, access_claims], Inr access_tok) \<and>
   decode_refresh_token (jwt_decode_at 2000000) cfg0 access_tok =
     Inl (HTTPException 401 ''Invalid scope for token'' None) \<and>
   get_email_from_token (jwt_decode_at 2000000) cfg0 access_tok =
     Inl (HTTPException 401 ''Invalid scope for token'' None) \<and>
   decode_refresh_token (jwt_decode_at 901000001) cfg0 access_tok =
     Inl (HTTPException 401 ''Could not validate credentials'' None) \<and>
   get_email_from_token (jwt_decode_at 901000001) cfg0 access_tok =
     Inl (HTTPException 422 ''Invalid token for email verification'' None) \<and>
   decode_refresh_token (jwt_decode_at 2000000) cfg0 email_tok \<noteq> Inr (PStr ''a@b.com'') \<and>
   get_email_from_token (jwt_decode_at 2000000) cfg0 refresh_tok \<noteq> Inr (PStr ''a@b.com'') \<and>
   decode_refresh_token (jwt_decode_at 2000000) cfg0 refresh_tok = Inr (PStr ''a@b.com'')"
proof -
  have i: "create_access_token encode cfg0 [alice] 0 None 1000000 1000007 = ([alice, access_claims], Inr access_tok)"
    by (rule issue_alice)
  have em: "jwt_decode_at 2000000 email_tok (secret_key cfg0) [algorithm cfg0] = Inr email_claims"
    by (simp add: cfg0_def example_decodes)
  have es: "dict_get email_claims ''scope'' \<noteq> PStr ''refresh_token''"
    by (simp add: example_claims)
  have rf: "jwt_decode_at 2000000 refresh_tok (secret_key cfg0) [algorithm cfg0] = Inr refresh_claims"
    by (simp add: cfg0_def example_decodes)
  have rs: "dict_get refresh_claims ''scope'' \<noteq> PStr ''email_token''"
    by (simp add: example_claims)
  have r1: "decode_refresh_token (jwt_decode_at 2000000) cfg0 access_tok
      \<noteq> Inl (HTTPException 401 ''Could not validate credentials'' None)"
    by (simp add: decode_refresh_token_def cfg0_def example_decodes dict_getitem_def
          access_claims_def map_of_stamp)
  have e1: "get_email_from_token (jwt_decode_at 2000000) cfg0 access_tok
      \<noteq> Inl (HTTPException 422 ''Invalid token for email verification'' None)"
    by (simp add: get_email_from_token_def cfg0_def example_decodes dict_getitem_def
          access_claims_def map_of_stamp)
  have r2: "decode_refresh_token (jwt_decode_at 901000001) cfg0 access_tok
      \<noteq> Inl (HTTPException 401 ''Invalid scope for token'' None)"
    by (simp add: decode_refresh_token_def cfg0_def example_decodes)
  have e2: "get_email_from_token (jwt_decode_at 901000001) cfg0 access_tok
      \<noteq> Inl (HTTPException 401 ''Invalid scope for token'' None)"
    by (simp add: get_email_from_token_def cfg0_def example_decodes)
  have "decode_refresh_token (jwt_decode_at 2000000) cfg0 access_tok =
     Inl (HTTPException 401 ''Invalid scope for token'' None) \<and>
   get_email_from_token (jwt_decode_at 2000000) cfg0 access_tok =
     Inl (HTTPException 401 ''Invalid scope for token'' None)"
    using i r1 e1 access_token_rejected_elsewhere
      [of cfg0 "[alice]" 0 None 1000000 1000007 "[alice, access_claims]" access_tok 2000000
        "jwt_decode_at 2000000" email_tok]
    by blast
  moreover have "decode_refresh_token (jwt_decode_at 901000001) cfg0 access_tok =
     Inl (HTTPException 401 ''Could not validate credentials'' None) \<and>
   get_email_from_token (jwt_decode_at 901000001) cfg0 access_tok =
     Inl (HTTPException 422 ''Invalid token for email verification'' None)"
    using i r2 e2 access_token_rejected_elsewhere
      [of cfg0 "[alice]" 0 None 1000000 1000007 "[alice, access_claims]" access_tok 901000001
        "jwt_decode_at 2000000" refresh_tok]
    by blast
  moreover have "decode_refresh_token (jwt_decode_at 2000000) cfg0 email_tok \<noteq> Inr (PStr ''a@b.com'')"
    using em es access_token_rejected_elsewhere
      [of cfg0 "[alice]" 0 None 1000000 1000007 "[alice, access_claims]" access_tok 2000000
        "jwt_decode_at 2000000" email_tok]
    by blast
  moreover have "get_email_from_token (jwt_decode_at 2000000) cfg0 refresh_tok \<noteq> Inr (PStr ''a@b.com'')"
    using rf rs access_token_rejected_elsewhere
      [of cfg0 "[alice]" 0 None 1000000 1000007 "[alice, access_claims]" access_tok 2000000
        "jwt_decode_at 2000000" refresh_tok]
    by blast
  moreover have "decode_refresh_token (jwt_decode_at 2000000) cfg0 refresh_tok = Inr (PStr ''a@b.com'')"
    by (simp add: decode_refresh_token_def cfg0_def example_decodes dict_getitem_def
          refresh_claims_def map_of_stamp alice_def)
  ultimately show ?thesis using i by simp
qed

text \<open>
  C3. \<^verbatim>\<open>get_email_from_token\<close> fails with status 401 and the detail
  \<^verbatim>\<open>Invalid scope for token\<close> when the token decodes and its scope is another than
  \<^verbatim>\<open>email_token\<close>, and with status 422 when decoding fails, as for a token whose
  claims segment was corrupted.
\<close>

theorem get_email_from_token_failures:
  "(\<forall>payload scope. jwt_decode token (secret_key cfg) [algorithm cfg] = Inr payload \<and>
        map_of payload ''scope'' = Some scope \<and> scope \<noteq> PStr ''email_token'' \<longrightarrow>
      get_email_from_token jwt_decode cfg token =
        Inl (HTTPException 401 ''Invalid scope for token'' None)) \<and>
   (\<forall>err. jwt_decode token (secret_key cfg) [algorithm cfg] = Inl err \<longrightarrow>
      get_email_from_token jwt_decode cfg token =
        Inl (HTTPException 422 ''Invalid token for email verification'' None))"
proof (intro conjI allI impI)
  fix payload scope
  assume "jwt_decode token (secret_key cfg) [algorithm cfg] = Inr payload \<and>
        map_of payload ''scope'' = Some scope \<and> scope \<noteq> PStr ''email_token''"
  then show "get_email_from_token jwt_decode cfg token =
        Inl (HTTPException 401 ''Invalid scope for token'' None)"
    using get_email_from_token_wrong_scope [of jwt_decode token cfg payload scope] by blast
next
  fix err
  assume "jwt_decode token (secret_key cfg) [algorithm cfg] = Inl err"
  then show "get_email_from_token jwt_decode cfg token =
        Inl (HTTPException 422 ''Invalid token for email verification'' None)"
    by (rule get_email_from_token_decode_failure)
qed

theorem get_email_from_token_failures_witness:
  "jwt_decode_at 2000000 corrupted_email_tok (secret_key cfg0) [algorithm cfg0]
     = Inl InvalidSignatureError \<and>
   get_email_from_token (jwt_decode_at 2000000) cfg0 corrupted_email_tok =
     Inl (HTTPException 422 ''Invalid token for email verification'' None) \<and>
   jwt_decode_at 2000000 access_tok (secret_key cfg0) [algorithm cfg0] = Inr access_claims \<and>
   map_of access_claims ''scope'' = Some (PStr ''access_token'') \<and>
   get_email_from_token (jwt_decode_at 2000000) cfg0 access_tok =
     Inl (HTTPException 401 ''Invalid scope for token'' None) \<and>
   get_email_from_token (jwt_decode_at 2000000) cfg0 email_tok = Inr (PStr ''a@b.com'')"
proof -
  have c: "jwt_decode_at 2000000 corrupted_email_tok (secret_key cfg0) [algorithm cfg0]
     = Inl InvalidSignatureError"
    by (simp add: corrupted_email_tok_def jwt_decode_at_def decode_def cfg0_def email_claims_def
          alice_def stamp_def dict_update_def)
  have a: "jwt_decode_at 2000000 access_tok (secret_key cfg0) [algorithm cfg0] = Inr access_claims"
    by (simp add: cfg0_def example_decodes)
  have s: "map_of access_claims ''scope'' = Some (PStr ''access_token'')"
    by (simp add: access_claims_def map_of_stamp)
  have e: "jwt_decode_at 2000000 email_tok (secret_key cfg0) [algorithm cfg0] = Inr email_claims"
    by (simp add: cfg0_def example_decodes)
  have ne: "PStr ''access_token'' \<noteq> PStr ''email_token''"
    by simp
  have "get_email_from_token (jwt_decode_at 2000000) cfg0 corrupted_email_tok =
     Inl (HTTPException 422 ''Invalid token for email verification'' None)"
    using c get_email_from_token_failures [of "jwt_decode_at 2000000" corrupted_email_tok cfg0]
    by blast
  moreover have "get_email_from_token (jwt_decode_at 2000000) cfg0 access_tok =
     Inl (HTTPException 401 ''Invalid scope for token'' None)"
    using a s ne get_email_from_token_failures [of "jwt_decode_at 2000000" access_tok cfg0]
    by blast
  moreover have "get_email_from_token (jwt_decode_at 2000000) cfg0 email_tok = Inr (PStr ''a@b.com'')"
    by (simp add: get_email_from_token_def e dict_getitem_def email_claims_def map_of_stamp alice_def)
  ultimately show ?thesis using c a s by simp
qed

text \<open>
  C5 fails on the code. A token that \<^verbatim>\<open>create_refresh_token\<close> or
  \<^verbatim>\<open>create_email_token\<close> issued for a dictionary without \<^verbatim>\<open>sub\<close> decodes, and
  \<^verbatim>\<open>decode_refresh_token\<close> and \<^verbatim>\<open>get_email_from_token\<close> then let the \<^verbatim>\<open>KeyError\<close> of
  \<^verbatim>\<open>payload['sub']\<close> escape; a signed token without \<^verbatim>\<open>scope\<close> does the same at
  \<^verbatim>\<open>payload['scope']\<close>. \<^verbatim>\<open>get_current_user\<close>, which reads both keys with \<^verbatim>\<open>get\<close>,
  answers the same token with its 401.
\<close>

theorem key_error_escapes:
  "create_refresh_token encode cfg0 [[]] 0 None 1000000 1000007 =
     ([[], stamp [] 1000007 604801000000 ''refresh_token''], Inr nosub_refresh_tok) \<and>
   decode_refresh_token (jwt_decode_at 2000000) cfg0 nosub_refresh_tok = Inl (KeyError ''sub'') \<and>
   create_email_token encode cfg0 [[]] 0 1000000 1000007 =
     ([[], stamp [] 1000007 604801000000 ''email_token''], Inr nosub_email_tok) \<and>
   get_email_from_token (jwt_decode_at 2000000) cfg0 nosub_email_tok = Inl (KeyError ''sub'') \<and>
   jwt_decode_at 2000000 noscope_tok (secret_key cfg0) [algorithm cfg0] = Inr [(''sub'', PStr ''a@b.com'')] \<and>
   decode_refresh_token (jwt_decode_at 2000000) cfg0 noscope_tok = Inl (KeyError ''scope'') \<and>
   get_email_from_token (jwt_decode_at 2000000) cfg0 noscope_tok = Inl (KeyError ''scope'') \<and>
   get_current_user (jwt_decode_at 2000000) lookup0 cfg0 noscope_tok = Inl credentials_exception"
proof -
  have d: "jwt_decode_at 2000000 noscope_tok ''s3cret'' [''HS256''] = Inr [(''sub'', PStr ''a@b.com'')]"
    by (simp add: noscope_tok_def jwt_decode_at_encode decode_encode)
  have r: "jwt_decode_at 2000000 nosub_refresh_tok ''s3cret'' [''HS256'']
      = Inr (stamp [] 1000007 604801000000 ''refresh_token'')"
    by (simp add: nosub_refresh_tok_def decode_stamp)
  have e: "jwt_decode_at 2000000 nosub_email_tok ''s3cret'' [''HS256'']
      = Inr (stamp [] 1000007 604801000000 ''email_token'')"
    by (simp add: nosub_email_tok_def decode_stamp)
  have "create_refresh_token encode cfg0 [[]] 0 None 1000000 1000007 =
     ([[], stamp [] 1000007 604801000000 ''refresh_token''], Inr nosub_refresh_tok)"
    by (simp add: create_refresh_token_unfold truthy_def timedelta_days_7 datetime_add_Inr
          time_defs cfg0_def nosub_refresh_tok_def)
  moreover have "create_email_token encode cfg0 [[]] 0 1000000 1000007 =
     ([[], stamp [] 1000007 604801000000 ''email_token''], Inr nosub_email_tok)"
    by (simp add: create_email_token_unfold timedelta_days_7 datetime_add_Inr
          time_defs cfg0_def nosub_email_tok_def)
  moreover have "decode_refresh_token (jwt_decode_at 2000000) cfg0 nosub_refresh_tok = Inl (KeyError ''sub'')"
    by (simp add: decode_refresh_token_def cfg0_def r dict_getitem_def map_of_stamp)
  moreover have "get_email_from_token (jwt_decode_at 2000000) cfg0 nosub_email_tok = Inl (KeyError ''sub'')"
    by (simp add: get_email_from_token_def cfg0_def e dict_getitem_def map_of_stamp)
  moreover have "decode_refresh_token (jwt_decode_at 2000000) cfg0 noscope_tok = Inl (KeyError ''scope'')"
    by (simp add: decode_refresh_token_def cfg0_def d dict_getitem_def)
  moreover have "get_email_from_token (jwt_decode_at 2000000) cfg0 noscope_tok = Inl (KeyError ''scope'')"
    by (simp add: get_email_from_token_def cfg0_def d dict_getitem_def)
  moreover have "get_current_user (jwt_decode_at 2000000) lookup0 cfg0 noscope_tok = Inl credentials_exception"
    by (simp add: get_current_user_def cfg0_def d dict_get_def)
  ultimately show ?thesis using d by (simp add: cfg0_def)
qed

section \<open>The codec's round trip\<close>

text \<open>
  C6. Decoding a token that \<^const>\<open>encode\<close> produced, with the same key and algorithm
  and at a time strictly before the \<^verbatim>\<open>exp\<close> of its claims, returns the claims
  unchanged.
\<close>

theorem codec_round_trip:
  "(\<forall>e. map_of claims ''exp'' = Some (PDatetime e) \<longrightarrow> now < e) \<Longrightarrow>
     decode now (encode claims key alg) key alg = Inr claims \<and>
     jwt_decode_at now (encode claims key alg) key [alg] = Inr claims"
  by (auto simp: jwt_decode_at_encode decode_encode split: option.splits pyval.splits)

theorem codec_round_trip_witness:
  "map_of access_claims ''exp'' = Some (PDatetime 901000000) \<and> (2000000::int) < 901000000 \<and>
   decode 2000000 (encode access_claims ''s3cret'' ''HS256'') ''s3cret'' ''HS256'' = Inr access_claims \<and>
   decode 2000000 (encode alice ''s3cret'' ''HS256'') ''s3cret'' ''HS256'' = Inr alice"
proof -
  have x: "map_of access_claims ''exp'' = Some (PDatetime 901000000)"
    by (simp add: access_claims_def map_of_stamp)
  then have h: "\<forall>e. map_of access_claims ''exp'' = Some (PDatetime e) \<longrightarrow> 2000000 < e"
    by simp
  have h': "\<forall>e. map_of alice ''exp'' = Some (PDatetime e) \<longrightarrow> 2000000 < e"
    by (simp add: alice_def)
  from x codec_round_trip [OF h, of "''s3cret''" "''HS256''"]
    codec_round_trip [OF h', of "''s3cret''" "''HS256''"]
  show ?thesis by simp
qed

end
